theory Spec2Isabelle
  imports Main
begin

section \<open>JavaScript values\<close>

text \<open>
  The adapter (\<^verbatim>\<open>index.js\<close>) receives parsed JSON: webhook payloads and the bodies of the
  provider's responses. A value that may be \<^verbatim>\<open>undefined\<close> is a \<open>json option\<close>, with
  \<open>None\<close> for \<^verbatim>\<open>undefined\<close>. An object is its list of own properties, the first binding
  of a name being the one that is read. The program never computes with a number: it
  passes numbers along and prints them, so the type of numbers (the doubles) is left
  open and their printing is a parameter (\<open>Number_toString\<close> below).
\<close>

typedecl number

datatype json =
    JNull
  | JBool bool
  | JNum number
  | JStr string
  | JArr "json list"
  | JObj "(string \<times> json) list"

type_synonym jsval = "json option"

text \<open>
  What the code can throw or reject with. \<^verbatim>\<open>StatusCode c b\<close> is
  \<^verbatim>\<open>new Error(`STATUS CODE ${c}: ${JSON.stringify(b)}`)\<close>, \<^verbatim>\<open>CannotFindRepository u\<close> is
  \<^verbatim>\<open>new Error(`Cannot find repository ${u}`)\<close>, \<^verbatim>\<open>TypeError\<close> is what the runtime throws on
  a property read of \<^verbatim>\<open>undefined\<close> or \<^verbatim>\<open>null\<close> and on a call of something that is not a
  function, \<^verbatim>\<open>URIError\<close> comes from the URI library functions, and \<^verbatim>\<open>Rejected m\<close> is a
  rejection of the transport (the circuit breaker) itself.
\<close>

datatype error =
    TypeError
  | URIError
  | StatusCode int jsval
  | CannotFindRepository string
  | Rejected string

text \<open>Sequencing of steps that may throw: the first error ends the computation.\<close>

definition bindE :: "error + 'a \<Rightarrow> ('a \<Rightarrow> error + 'b) \<Rightarrow> error + 'b" where
  "bindE m f = (case m of Inl e \<Rightarrow> Inl e | Inr x \<Rightarrow> f x)"

text \<open>Reading an array element: \<^verbatim>\<open>xs[i]\<close> is \<^verbatim>\<open>undefined\<close> out of range.\<close>

fun nth_opt :: "'a list \<Rightarrow> nat \<Rightarrow> 'a option" where
  "nth_opt [] i = None"
| "nth_opt (x # xs) 0 = Some x"
| "nth_opt (x # xs) (Suc i) = nth_opt xs i"

text \<open>
  \<^verbatim>\<open>s.split(c)\<close> for a separator of one character: the pieces between the separators,
  in order; never an empty array (\<^verbatim>\<open>''.split(':')\<close> is \<^verbatim>\<open>['']\<close>).
\<close>

fun split_str :: "char \<Rightarrow> string \<Rightarrow> string list" where
  "split_str c [] = [Nil]"
| "split_str c (x # xs) =
     (if x = c then [] # split_str c xs
      else (case split_str c xs of
              [] \<Rightarrow> [x # Nil]
            | p # ps \<Rightarrow> (x # p) # ps))"

text \<open>
  A template literal renders \<^verbatim>\<open>undefined\<close> as the text \<^verbatim>\<open>undefined\<close> and \<^verbatim>\<open>null\<close> as
  \<^verbatim>\<open>null\<close>. \<open>str_undefined\<close> is used for a string that may be \<^verbatim>\<open>undefined\<close>, \<open>str_null\<close>
  for one that may be \<^verbatim>\<open>null\<close>.
\<close>

definition str_undefined :: "string option \<Rightarrow> string" where
  "str_undefined v = (case v of None \<Rightarrow> ''undefined'' | Some s \<Rightarrow> s)"

definition str_null :: "string option \<Rightarrow> string" where
  "str_null v = (case v of None \<Rightarrow> ''null'' | Some s \<Rightarrow> s)"

section \<open>The opaque reference (scmUri)\<close>

text \<open>
  \<^verbatim>\<open>
  function getScmUriParts(scmUri) {
      const scm = {};
      [scm.hostname, scm.repoId, scm.branch] = scmUri.split(':');
      return scm;
  }
  \<close>
  The destructuring assignment takes the first three pieces; a piece that is not there is
  \<^verbatim>\<open>undefined\<close>, pieces after the third are dropped. Nothing is thrown.
\<close>

record scm =
  scm_hostname :: "string option"
  scm_repoId :: "string option"
  scm_branch :: "string option"

definition getScmUriParts :: "string \<Rightarrow> scm" where
  "getScmUriParts scmUri =
     (let parts = split_str CHR '':'' scmUri
      in \<lparr>scm_hostname = nth_opt parts 0,
          scm_repoId = nth_opt parts 1,
          scm_branch = nth_opt parts 2\<rparr>)"

text \<open>
  The reference is composed in \<^verbatim>\<open>_parseUrl\<close> by the template
  \<^verbatim>\<open>`${hostname}:${repositoryId}:${branch}`\<close>, where the repository identifier is itself
  \<^verbatim>\<open>`${username}/${uuid}`\<close>.
\<close>

definition composeScmUri :: "string \<Rightarrow> string \<Rightarrow> string \<Rightarrow> string" where
  "composeScmUri hostname repositoryId branch =
     hostname @ '':'' @ repositoryId @ '':'' @ branch"

text \<open>
  A property read \<^verbatim>\<open>v.k\<close>. On \<^verbatim>\<open>undefined\<close> and \<^verbatim>\<open>null\<close> it throws a TypeError; on an
  object it is the property or \<^verbatim>\<open>undefined\<close>. The names this program reads
  (\<^verbatim>\<open>repository\<close>, \<^verbatim>\<open>uuid\<close>, \<^verbatim>\<open>target\<close>, \<^verbatim>\<open>hash\<close>, \<^verbatim>\<open>data\<close>, \<^verbatim>\<open>author\<close>, \<^verbatim>\<open>user\<close>,
  \<^verbatim>\<open>username\<close>, \<^verbatim>\<open>links\<close>, \<^verbatim>\<open>html\<close>, \<^verbatim>\<open>href\<close>, \<^verbatim>\<open>avatar\<close>, \<^verbatim>\<open>message\<close>,
  \<^verbatim>\<open>display_name\<close>) are no property of a string, a number, a boolean or an array, so
  there the read is \<^verbatim>\<open>undefined\<close>. The one other name, \<^verbatim>\<open>values\<close>, is read only to call
  \<^verbatim>\<open>some\<close> on the result, which throws unless the result is an array (see
  \<open>values_some\<close> below); an array body has no array under that name.
\<close>

fun get_prop :: "jsval \<Rightarrow> string \<Rightarrow> error + jsval" where
  "get_prop None k = Inl TypeError"
| "get_prop (Some JNull) k = Inl TypeError"
| "get_prop (Some (JObj kvs)) k = Inr (map_of kvs k)"
| "get_prop (Some v) k = Inr None"

text \<open>
  \<^verbatim>\<open>hoek.reach(obj, chain)\<close> walks the dot-separated path, starting at an object or at
  \<^verbatim>\<open>undefined\<close>, and gives \<^verbatim>\<open>undefined\<close> as soon as the value at hand is falsy, is not
  an object, or lacks the key; it does not throw. A \<^verbatim>\<open>null\<close> found at the very end of the
  path is returned as it is. A key is looked up with \<^verbatim>\<open>key in ref\<close>, on objects only. None
  of the keys in the paths of this program is inherited by an object, and none is a
  property of an array reached inside the payload, so a key is found exactly when it is
  an own property of an object.
\<close>

fun reach_path :: "jsval \<Rightarrow> string list \<Rightarrow> jsval" where
  "reach_path ref [] = ref"
| "reach_path (Some (JObj kvs)) (k # path) =
     (case map_of kvs k of None \<Rightarrow> None | Some v \<Rightarrow> reach_path (Some v) path)"
| "reach_path ref (k # path) = None"

definition reach :: "jsval \<Rightarrow> string \<Rightarrow> jsval" where
  "reach obj chain = reach_path obj (split_str CHR ''.'' chain)"

text \<open>
  The element read \<^verbatim>\<open>v[0]\<close>: a TypeError on \<^verbatim>\<open>undefined\<close> and \<^verbatim>\<open>null\<close>, the first
  element of an array (or \<^verbatim>\<open>undefined\<close> when it is empty), the first character of a
  string, the property \<^verbatim>\<open>"0"\<close> of an object, \<^verbatim>\<open>undefined\<close> on a number or a boolean.
  The program only reaches into the result with a path, which gives \<^verbatim>\<open>undefined\<close> for
  every string.
\<close>

fun index0 :: "jsval \<Rightarrow> error + jsval" where
  "index0 None = Inl TypeError"
| "index0 (Some JNull) = Inl TypeError"
| "index0 (Some (JArr xs)) = Inr (nth_opt xs 0)"
| "index0 (Some (JStr s)) = Inr (case s of [] \<Rightarrow> None | c # cs \<Rightarrow> Some (JStr [c]))"
| "index0 (Some (JObj kvs)) = Inr (map_of kvs ''0'')"
| "index0 (Some v) = Inr None"

section \<open>The collaborators\<close>

text \<open>
  Library functions the module imports, taken as parameters:
  \<^item> \<open>CHECKOUT_URL_exec\<close> is \<^verbatim>\<open>schema.config.regex.CHECKOUT_URL.exec\<close>: \<open>None\<close> when the
    expression does not match (\<^verbatim>\<open>null\<close>), otherwise the match array, read by index, a
    group that took no part being \<^verbatim>\<open>undefined\<close>;
  \<^item> \<open>url_parse\<close> is \<^verbatim>\<open>url.parse\<close> on a string;
  \<^item> \<open>decodeURIComponent\<close> is the global of that name, which throws on a malformed escape;
  \<^item> \<open>Number_toString\<close> is the text that \<^verbatim>\<open>String\<close> gives for a number.
\<close>

record urlObject =
  protocol :: "string option"
  url_hostname :: "string option"
  pathname :: "string option"

record deps =
  CHECKOUT_URL_exec :: "string \<Rightarrow> (nat \<Rightarrow> string option) option"
  url_parse :: "string \<Rightarrow> error + urlObject"
  decodeURIComponent :: "string \<Rightarrow> error + string"
  Number_toString :: "number \<Rightarrow> string"

text \<open>
  \<^verbatim>\<open>String(v)\<close>, as a template literal applies it to a value read from JSON. A string is
  itself. An array is its elements joined by commas, each converted in turn, with
  \<^verbatim>\<open>null\<close> rendered empty. An object without an own property \<^verbatim>\<open>toString\<close> is
  \<^verbatim>\<open>[object Object]\<close>. An object with an own property \<^verbatim>\<open>toString\<close> has no callable
  \<^verbatim>\<open>toString\<close> (a value read from JSON is no function), and \<^verbatim>\<open>valueOf\<close>, own or
  inherited, gives no primitive value either: the conversion throws a TypeError.
\<close>

fun join_str :: "string \<Rightarrow> string list \<Rightarrow> string" where
  "join_str sep [] = []"
| "join_str sep [x] = x"
| "join_str sep (x # y # ys) = x @ sep @ join_str sep (y # ys)"

fun json_toString :: "deps \<Rightarrow> json \<Rightarrow> error + string"
  and elements_toString :: "deps \<Rightarrow> json list \<Rightarrow> error + string list" where
  "json_toString d JNull = Inr ''null''"
| "json_toString d (JBool b) = Inr (if b then ''true'' else ''false'')"
| "json_toString d (JNum n) = Inr (Number_toString d n)"
| "json_toString d (JStr s) = Inr s"
| "json_toString d (JArr xs) =
     bindE (elements_toString d xs) (\<lambda>ss. Inr (join_str '','' ss))"
| "json_toString d (JObj kvs) =
     (if map_of kvs ''toString'' = None then Inr ''[object Object]'' else Inl TypeError)"
| "elements_toString d [] = Inr []"
| "elements_toString d (x # xs) =
     bindE (if x = JNull then Inr [] else json_toString d x) (\<lambda>s.
     bindE (elements_toString d xs) (\<lambda>ss. Inr (s # ss)))"

definition toString :: "deps \<Rightarrow> jsval \<Rightarrow> error + string" where
  "toString d v = (case v of None \<Rightarrow> Inr ''undefined'' | Some j \<Rightarrow> json_toString d j)"

text \<open>\<^verbatim>\<open>url.parse(v)\<close> throws a TypeError when \<^verbatim>\<open>v\<close> is not a string.\<close>

fun url_parse_value :: "deps \<Rightarrow> jsval \<Rightarrow> error + urlObject" where
  "url_parse_value d (Some (JStr s)) = url_parse d s"
| "url_parse_value d v = Inl TypeError"

text \<open>
  What reading a key of an object literal gives: a string written there, or a member
  inherited from \<^verbatim>\<open>Object.prototype\<close>, given by its name.
\<close>

datatype member = Str string | Inherited string

text \<open>
  The request handed to the circuit breaker and the response it resolves to. The body of
  a request is present only for the commit status write.
\<close>

record status_body =
  sb_url :: string
  sb_state :: "member option"
  sb_key :: string
  sb_description :: string

record options =
  o_url :: string
  o_method :: string
  o_json :: bool
  o_body :: "status_body option"
  o_bearer :: string

record response =
  statusCode :: int
  body :: jsval

text \<open>
  The adapter instance: its validated configuration and its breaker. Within one call of a
  method every request has its own URL, so \<^verbatim>\<open>this.breaker.runCommand\<close> is a function from
  the request to the outcome (a rejection or a response).
\<close>

record bitbucketScm =
  https :: bool
  oauthClientId :: string
  oauthClientSecret :: string
  runCommand :: "options \<Rightarrow> error + response"

definition API_URL_V1 :: string where
  "API_URL_V1 = ''https://api.bitbucket.org/1.0''"

definition API_URL_V2 :: string where
  "API_URL_V2 = ''https://api.bitbucket.org/2.0''"

definition REPO_URL :: string where
  "REPO_URL = API_URL_V2 @ ''/repositories''"

definition USER_URL :: string where
  "USER_URL = API_URL_V2 @ ''/users''"

definition MATCH_COMPONENT_HOSTNAME :: nat where "MATCH_COMPONENT_HOSTNAME = 1"
definition MATCH_COMPONENT_USER :: nat where "MATCH_COMPONENT_USER = 2"
definition MATCH_COMPONENT_REPO :: nat where "MATCH_COMPONENT_REPO = 3"
definition MATCH_COMPONENT_BRANCH :: nat where "MATCH_COMPONENT_BRANCH = 4"

text \<open>
  \<^verbatim>\<open>STATE_MAP[k]\<close> reads an object literal: for one of its five own keys the string
  written there, for a name that every object inherits from \<^verbatim>\<open>Object.prototype\<close> the
  inherited member (a function, or the prototype itself for \<^verbatim>\<open>__proto__\<close>), and
  \<^verbatim>\<open>undefined\<close> for any other name.
\<close>

definition Object_prototype_names :: "string list" where
  "Object_prototype_names =
     [''constructor'', ''__defineGetter__'', ''__defineSetter__'', ''hasOwnProperty'',
      ''__lookupGetter__'', ''__lookupSetter__'', ''isPrototypeOf'',
      ''propertyIsEnumerable'', ''toString'', ''valueOf'', ''__proto__'',
      ''toLocaleString'']"

definition STATE_MAP :: "string \<Rightarrow> member option" where
  "STATE_MAP k =
     (case map_of
         [(''SUCCESS'', ''SUCCESSFUL''),
          (''RUNNING'', ''INPROGRESS''),
          (''QUEUED'', ''INPROGRESS''),
          (''FAILURE'', ''FAILED''),
          (''ABORTED'', ''STOPPED'')] k of
        Some v \<Rightarrow> Some (Str v)
      | None \<Rightarrow> if k \<in> set Object_prototype_names then Some (Inherited k) else None)"

definition get_options :: "string \<Rightarrow> string \<Rightarrow> options" where
  "get_options u token =
     \<lparr>o_url = u, o_method = ''GET'', o_json = True, o_body = None, o_bearer = token\<rparr>"

section \<open>Resolving a checkout URL\<close>

text \<open>
  \<^verbatim>\<open>getRepoInfo\<close>: \<^verbatim>\<open>matched[i]\<close> throws when there is no match, and
  \<^verbatim>\<open>matched[MATCH_COMPONENT_BRANCH].slice(1)\<close> throws when the URL has no branch suffix.
  The branch group starts with \<^verbatim>\<open>#\<close>, which \<^verbatim>\<open>slice(1)\<close> removes.
\<close>

record repoInfo =
  ri_hostname :: "string option"
  ri_repo :: "string option"
  ri_branch :: string
  ri_username :: "string option"

definition getRepoInfo :: "deps \<Rightarrow> string \<Rightarrow> error + repoInfo" where
  "getRepoInfo d checkoutUrl =
     (case CHECKOUT_URL_exec d checkoutUrl of
        None \<Rightarrow> Inl TypeError
      | Some matched \<Rightarrow>
          (case matched MATCH_COMPONENT_BRANCH of
             None \<Rightarrow> Inl TypeError
           | Some b \<Rightarrow>
               Inr \<lparr>ri_hostname = matched MATCH_COMPONENT_HOSTNAME,
                    ri_repo = matched MATCH_COMPONENT_REPO,
                    ri_branch = drop 1 b,
                    ri_username = matched MATCH_COMPONENT_USER\<rparr>))"

definition parseUrl_options :: "repoInfo \<Rightarrow> string \<Rightarrow> options" where
  "parseUrl_options info token =
     get_options
       (REPO_URL @ ''/'' @ str_undefined (ri_username info) @ ''/''
          @ str_undefined (ri_repo info) @ ''/refs/branches/'' @ ri_branch info)
       token"

definition parseUrl :: "deps \<Rightarrow> bitbucketScm \<Rightarrow> string \<Rightarrow> string \<Rightarrow> error + string" where
  "parseUrl d this checkoutUrl token =
     bindE (getRepoInfo d checkoutUrl) (\<lambda>info.
     bindE (runCommand this (parseUrl_options info token)) (\<lambda>response.
       if statusCode response = 404 then Inl (CannotFindRepository checkoutUrl)
       else if statusCode response \<noteq> 200
         then Inl (StatusCode (statusCode response) (body response))
       else
         bindE (get_prop (body response) ''repository'') (\<lambda>repository.
         bindE (get_prop repository ''uuid'') (\<lambda>uuid.
         bindE (toString d uuid) (\<lambda>u.
           Inr (composeScmUri (str_undefined (ri_hostname info))
                  (str_undefined (ri_username info) @ ''/'' @ u)
                  (ri_branch info)))))))"


section \<open>Webhook normalisation\<close>

text \<open>
  The object \<^verbatim>\<open>parsed\<close> that \<^verbatim>\<open>_parseHook\<close> fills in. A property that was read from the
  payload may be \<^verbatim>\<open>undefined\<close>; \<open>p_prNum\<close> and \<open>p_prRef\<close> are set for a pull request only
  and read as \<^verbatim>\<open>undefined\<close> on a push event.
\<close>

record parsed =
  p_hookId :: "string option"
  p_type :: string
  p_action :: string
  p_username :: jsval
  p_checkoutUrl :: string
  p_branch :: jsval
  p_sha :: jsval
  p_prNum :: jsval
  p_prRef :: jsval

text \<open>
  The template of lines 143 and 144 (165 and 166). Converting the owner's name, a value
  read from the payload, may throw.
\<close>

definition hook_checkoutUrl :: "deps \<Rightarrow> urlObject \<Rightarrow> jsval \<Rightarrow> error + string" where
  "hook_checkoutUrl d link repoOwner =
     bindE (toString d repoOwner) (\<lambda>owner.
       Inr (str_null (protocol link) @ ''//'' @ owner @ ''@''
              @ str_null (url_hostname link) @ str_null (pathname link) @ ''.git''))"

text \<open>The chain of comparisons on \<^verbatim>\<open>actionHeader\<close> in the \<^verbatim>\<open>pullrequest\<close> case.\<close>

definition pullrequest_action :: "string option \<Rightarrow> string option" where
  "pullrequest_action actionHeader =
     (if actionHeader = Some ''created'' then Some ''opened''
      else if actionHeader = Some ''updated'' then Some ''synchronized''
      else if actionHeader = Some ''fullfilled'' \<or> actionHeader = Some ''rejected''
        then Some ''closed''
      else None)"

text \<open>
  \<^verbatim>\<open>_parseHook(headers, payload)\<close>. The payload is an object, given by its properties;
  \<open>Inr None\<close> is the resolved \<^verbatim>\<open>null\<close>. The method is given its instance, as every
  method is; it does not read it.
\<close>

definition parseHook ::
  "deps \<Rightarrow> bitbucketScm \<Rightarrow> (string \<rightharpoonup> string) \<Rightarrow> (string \<times> json) list
     \<Rightarrow> error + parsed option" where
  "parseHook d this headers payload =
     (case headers ''x-event-key'' of
        None \<Rightarrow> Inl TypeError
      | Some eventKey \<Rightarrow>
          (let parts = split_str CHR '':'' eventKey;
               typeHeader = nth_opt parts 0;
               actionHeader = nth_opt parts 1;
               repoOwner = reach (Some (JObj payload)) ''repository.owner.username'';
               hookId = headers ''x-request-uuid''
           in
             if typeHeader = Some ''repo'' then
               (if actionHeader \<noteq> Some ''push'' then Inr None
                else
                  (let changes = reach (Some (JObj payload)) ''push.changes'' in
                   bindE (url_parse_value d (reach (Some (JObj payload)) ''repository.links.html.href''))
                     (\<lambda>link.
                   bindE (hook_checkoutUrl d link repoOwner) (\<lambda>checkoutUrl.
                   bindE (index0 changes) (\<lambda>change.
                     Inr (Some
                       \<lparr>p_hookId = hookId,
                        p_type = ''repo'',
                        p_action = ''push'',
                        p_username = reach (Some (JObj payload)) ''actor.username'',
                        p_checkoutUrl = checkoutUrl,
                        p_branch = reach change ''new.name'',
                        p_sha = reach change ''new.target.hash'',
                        p_prNum = None,
                        p_prRef = None\<rparr>))))))
             else if typeHeader = Some ''pullrequest'' then
               (case pullrequest_action actionHeader of
                  None \<Rightarrow> Inr None
                | Some action \<Rightarrow>
                    bindE (url_parse_value d (reach (Some (JObj payload)) ''repository.links.html.href''))
                      (\<lambda>link.
                    bindE (hook_checkoutUrl d link repoOwner) (\<lambda>checkoutUrl.
                      Inr (Some
                        \<lparr>p_hookId = hookId,
                         p_type = ''pr'',
                         p_action = action,
                         p_username = reach (Some (JObj payload)) ''actor.username'',
                         p_checkoutUrl = checkoutUrl,
                         p_branch = reach (Some (JObj payload)) ''pullrequest.destination.branch.name'',
                         p_sha = reach (Some (JObj payload)) ''pullrequest.source.commit.hash'',
                         p_prNum = reach (Some (JObj payload)) ''pullrequest.id'',
                         p_prRef = reach (Some (JObj payload)) ''pullrequest.source.branch.name''\<rparr>))))
             else Inr None))"

section \<open>Lookups keyed by the reference\<close>

record author =
  a_url :: jsval
  a_name :: jsval
  a_username :: jsval
  a_avatar :: jsval

record commit =
  c_url :: jsval
  c_message :: jsval
  c_author :: author

text \<open>
  The URL of the user lookup is \<^verbatim>\<open>`${USER_URL}/${config.username}`\<close>; within
  \<^verbatim>\<open>_decorateCommit\<close> the name is a value read from the commit, and converting it may
  throw before any request is made.
\<close>

definition decorateAuthor_options :: "deps \<Rightarrow> jsval \<Rightarrow> string \<Rightarrow> error + options" where
  "decorateAuthor_options d username token =
     bindE (toString d username) (\<lambda>name. Inr (get_options (USER_URL @ ''/'' @ name) token))"

definition decorateAuthor :: "deps \<Rightarrow> bitbucketScm \<Rightarrow> jsval \<Rightarrow> string \<Rightarrow> error + author" where
  "decorateAuthor d this username token =
     bindE (decorateAuthor_options d username token) (\<lambda>options.
     bindE (runCommand this options) (\<lambda>response.
       if statusCode response \<noteq> 200
         then Inl (StatusCode (statusCode response) (body response))
       else
         bindE (get_prop (body response) ''links'') (\<lambda>links.
         bindE (get_prop links ''html'') (\<lambda>html.
         bindE (get_prop html ''href'') (\<lambda>href.
         bindE (get_prop (body response) ''display_name'') (\<lambda>display_name.
         bindE (get_prop (body response) ''username'') (\<lambda>uname.
         bindE (get_prop (body response) ''links'') (\<lambda>links2.
         bindE (get_prop links2 ''avatar'') (\<lambda>avatar.
         bindE (get_prop avatar ''href'') (\<lambda>avatar_href.
           Inr \<lparr>a_url = href, a_name = display_name, a_username = uname,
                a_avatar = avatar_href\<rparr>))))))))))"

definition decorateCommit_options :: "string \<Rightarrow> string \<Rightarrow> string \<Rightarrow> options" where
  "decorateCommit_options scmUri sha token =
     get_options
       (REPO_URL @ ''/'' @ str_undefined (scm_repoId (getScmUriParts scmUri))
          @ ''/commit/'' @ sha)
       token"

definition decorateCommit ::
  "deps \<Rightarrow> bitbucketScm \<Rightarrow> string \<Rightarrow> string \<Rightarrow> string \<Rightarrow> error + commit" where
  "decorateCommit d this scmUri sha token =
     bindE (runCommand this (decorateCommit_options scmUri sha token)) (\<lambda>response.
       if statusCode response \<noteq> 200
         then Inl (StatusCode (statusCode response) (body response))
       else
         bindE (get_prop (body response) ''author'') (\<lambda>auth.
         bindE (get_prop auth ''user'') (\<lambda>user.
         bindE (get_prop user ''username'') (\<lambda>uname.
         bindE (decorateAuthor d this uname token) (\<lambda>author.
         bindE (get_prop (body response) ''links'') (\<lambda>links.
         bindE (get_prop links ''html'') (\<lambda>html.
         bindE (get_prop html ''href'') (\<lambda>href.
         bindE (get_prop (body response) ''message'') (\<lambda>message.
           Inr \<lparr>c_url = href, c_message = message, c_author = author\<rparr>)))))))))"

definition getCommitSha_options :: "string \<Rightarrow> string \<Rightarrow> options" where
  "getCommitSha_options scmUri token =
     (let scm = getScmUriParts scmUri
      in get_options
           (REPO_URL @ ''/'' @ str_undefined (scm_repoId scm) @ ''/refs/branches/''
              @ str_undefined (scm_branch scm))
           token)"

definition getCommitSha :: "bitbucketScm \<Rightarrow> string \<Rightarrow> string \<Rightarrow> error + jsval" where
  "getCommitSha this scmUri token =
     bindE (runCommand this (getCommitSha_options scmUri token)) (\<lambda>response.
       if statusCode response \<noteq> 200
         then Inl (StatusCode (statusCode response) (body response))
       else
         bindE (get_prop (body response) ''target'') (\<lambda>target.
         get_prop target ''hash''))"

text \<open>\<^verbatim>\<open>config.ref || scm.branch\<close>: an absent or empty \<^verbatim>\<open>ref\<close> is falsy.\<close>

definition ref_or_branch :: "string option \<Rightarrow> string option \<Rightarrow> string option" where
  "ref_or_branch r b = (case r of None \<Rightarrow> b | Some s \<Rightarrow> if s = [] then b else Some s)"

definition getFile_options :: "string \<Rightarrow> string \<Rightarrow> string \<Rightarrow> string option \<Rightarrow> options" where
  "getFile_options scmUri path token r =
     (let scm = getScmUriParts scmUri;
          branch = ref_or_branch r (scm_branch scm)
      in get_options
           (API_URL_V1 @ ''/repositories/'' @ str_undefined (scm_repoId scm) @ ''/src/''
              @ str_undefined branch @ ''/'' @ path)
           token)"

definition getFile ::
  "bitbucketScm \<Rightarrow> string \<Rightarrow> string \<Rightarrow> string \<Rightarrow> string option \<Rightarrow> error + jsval" where
  "getFile this scmUri path token r =
     bindE (runCommand this (getFile_options scmUri path token r)) (\<lambda>response.
       if statusCode response \<noteq> 200
         then Inl (StatusCode (statusCode response) (body response))
       else get_prop (body response) ''data'')"

section \<open>Permissions\<close>

text \<open>
  \<^verbatim>\<open>r.uuid === uuid\<close>, where \<^verbatim>\<open>uuid\<close> is a piece of the split repository identifier (a
  string or \<^verbatim>\<open>undefined\<close>) and \<^verbatim>\<open>r.uuid\<close> is read from JSON.
\<close>

fun strict_eq :: "jsval \<Rightarrow> string option \<Rightarrow> bool" where
  "strict_eq None None = True"
| "strict_eq (Some (JStr s)) (Some t) = (s = t)"
| "strict_eq v u = False"

text \<open>
  \<^verbatim>\<open>values.some(r => r.uuid === uuid)\<close>: elements are visited in order up to the first
  one for which the test holds; reading \<^verbatim>\<open>uuid\<close> of a \<^verbatim>\<open>null\<close> element throws.
\<close>

fun some_uuid :: "string option \<Rightarrow> json list \<Rightarrow> error + bool" where
  "some_uuid uuid [] = Inr False"
| "some_uuid uuid (r # rs) =
     bindE (get_prop (Some r) ''uuid'') (\<lambda>v.
       if strict_eq v uuid then Inr True else some_uuid uuid rs)"

text \<open>
  \<^verbatim>\<open>response.body.values.some(...)\<close>: \<^verbatim>\<open>some\<close> is a function only when \<^verbatim>\<open>values\<close> is an
  array. When \<^verbatim>\<open>values\<close> is \<^verbatim>\<open>undefined\<close> or \<^verbatim>\<open>null\<close>, or anything else that has no
  method \<^verbatim>\<open>some\<close>, the call throws a TypeError.
\<close>

fun values_some :: "string option \<Rightarrow> jsval \<Rightarrow> error + bool" where
  "values_some uuid (Some (JArr rs)) = some_uuid uuid rs"
| "values_some uuid v = Inl TypeError"

definition getPerm_options :: "string \<Rightarrow> string \<Rightarrow> string \<Rightarrow> options" where
  "getPerm_options repoId desiredAccess token =
     (let owner = nth_opt (split_str CHR ''/'' repoId) 0;
          u = API_URL_V2 @ ''/repositories/'' @ str_undefined owner
      in get_options
           (if desiredAccess = ''admin'' then u @ ''?role=admin''
            else if desiredAccess = ''push'' then u @ ''?role=contributor''
            else u)
           token)"

definition getPerm :: "bitbucketScm \<Rightarrow> string \<Rightarrow> string \<Rightarrow> string \<Rightarrow> error + bool" where
  "getPerm this repoId desiredAccess token =
     (let uuid = nth_opt (split_str CHR ''/'' repoId) 1
      in bindE (runCommand this (getPerm_options repoId desiredAccess token)) (\<lambda>response.
           if statusCode response \<noteq> 200
             then Inl (StatusCode (statusCode response) (body response))
           else
             bindE (get_prop (body response) ''values'') (\<lambda>vals.
             values_some uuid vals)))"

text \<open>
  \<^verbatim>\<open>Promise.all\<close> is fulfilled with the list of values when every promise is fulfilled,
  and is otherwise rejected with the reason of the promise that rejects first. Which of
  several failing requests is answered first is not decided by the program, so the join
  is a relation between the promises' outcomes and the outcome of the whole: it may be
  rejected with the reason of any rejected promise.
\<close>

definition Promise_all :: "(error + 'a) list \<Rightarrow> error + 'a list \<Rightarrow> bool" where
  "Promise_all ps res = (case res of Inl e \<Rightarrow> Inl e \<in> set ps | Inr vs \<Rightarrow> ps = map Inr vs)"

record permissions =
  perm_admin :: bool
  perm_push :: bool
  perm_pull :: bool

text \<open>
  \<^verbatim>\<open>_getPermissions\<close>. \<^verbatim>\<open>repoId.split('/')\<close> throws at once when the reference has no
  second field.
\<close>

definition getPermissions ::
  "bitbucketScm \<Rightarrow> string \<Rightarrow> string \<Rightarrow> error + permissions \<Rightarrow> bool" where
  "getPermissions this scmUri token res =
     (case scm_repoId (getScmUriParts scmUri) of
        None \<Rightarrow> res = Inl TypeError
      | Some repoId \<Rightarrow>
          Promise_all
            [getPerm this repoId ''admin'' token,
             getPerm this repoId ''push'' token,
             getPerm this repoId ''pull'' token]
            (case res of
               Inl e \<Rightarrow> Inl e
             | Inr p \<Rightarrow> Inr [perm_admin p, perm_push p, perm_pull p]))"

section \<open>Commit status\<close>

text \<open>
  The body of the status write, lines 427 to 432. \<^verbatim>\<open>config.jobName\<close> is optional, and
  an empty name is falsy.
\<close>

definition commitStatus_body ::
  "string \<Rightarrow> string \<Rightarrow> string \<Rightarrow> string option \<Rightarrow> status_body" where
  "commitStatus_body target sha buildStatus jobName =
     \<lparr>sb_url = target,
      sb_state = STATE_MAP buildStatus,
      sb_key = sha,
      sb_description =
        (case jobName of
           None \<Rightarrow> ''Screwdriver''
         | Some j \<Rightarrow> if j = [] then ''Screwdriver'' else ''Screwdriver/'' @ j)\<rparr>"

definition updateCommitStatus_options ::
  "deps \<Rightarrow> string \<Rightarrow> string \<Rightarrow> string \<Rightarrow> string \<Rightarrow> string \<Rightarrow> string option
     \<Rightarrow> error + options" where
  "updateCommitStatus_options d scmUri sha buildStatus token target jobName =
     bindE (decodeURIComponent d token) (\<lambda>bearer.
       Inr \<lparr>o_url = REPO_URL @ ''/'' @ str_undefined (scm_repoId (getScmUriParts scmUri))
                     @ ''/commit/'' @ sha @ ''/statuses/build'',
            o_method = ''POST'',
            o_json = True,
            o_body = Some (commitStatus_body target sha buildStatus jobName),
            o_bearer = bearer\<rparr>)"

definition updateCommitStatus ::
  "deps \<Rightarrow> bitbucketScm \<Rightarrow> string \<Rightarrow> string \<Rightarrow> string \<Rightarrow> string \<Rightarrow> string \<Rightarrow> string option
     \<Rightarrow> error + response" where
  "updateCommitStatus d this scmUri sha buildStatus token target jobName =
     bindE (updateCommitStatus_options d scmUri sha buildStatus token target jobName)
       (\<lambda>options.
     bindE (runCommand this options) (\<lambda>response.
       if statusCode response \<noteq> 201 \<and> statusCode response \<noteq> 200
         then Inl (StatusCode (statusCode response) (body response))
       else Inr response))"

section \<open>Inputs for the examples\<close>

text \<open>
  An instance whose breaker answers from a table keyed by the request URL and rejects
  every other request.
\<close>

definition scm_with :: "(string \<times> response) list \<Rightarrow> bitbucketScm" where
  "scm_with table =
     \<lparr>https = False, oauthClientId = ''id'', oauthClientSecret = ''secret'',
      runCommand =
        (\<lambda>options. case map_of table (o_url options) of
                      None \<Rightarrow> Inl (Rejected ''ECONNREFUSED'')
                    | Some r \<Rightarrow> Inr r)\<rparr>"

text \<open>
  The library functions, tabulated at the strings the examples use:
  \<^verbatim>\<open>CHECKOUT_URL.exec\<close> at two checkout URLs of one repository (under the owner names
  \<^verbatim>\<open>batman\<close> and \<^verbatim>\<open>wayne\<close>), \<^verbatim>\<open>url.parse\<close> at the repository's HTML link, and
  \<^verbatim>\<open>decodeURIComponent\<close> on strings without an escape, where it is the identity. No
  example holds a number.
\<close>

definition example_match :: "string \<Rightarrow> string \<Rightarrow> nat \<Rightarrow> string option" where
  "example_match whole owner i =
     (if i = 0 then Some whole
      else if i = 1 then Some ''bitbucket.org''
      else if i = 2 then Some owner
      else if i = 3 then Some ''test''
      else if i = 4 then Some ''#master''
      else None)"

definition example_deps :: deps where
  "example_deps =
     \<lparr>CHECKOUT_URL_exec =
        (\<lambda>s. if s = ''https://batman@bitbucket.org/batman/test.git#master''
               then Some (example_match s ''batman'')
             else if s = ''https://batman@bitbucket.org/wayne/test.git#master''
               then Some (example_match s ''wayne'')
             else None),
      url_parse =
        (\<lambda>s. if s = ''https://bitbucket.org/batman/test''
               then Inr \<lparr>protocol = Some ''https:'', url_hostname = Some ''bitbucket.org'',
                         pathname = Some ''/batman/test''\<rparr>
             else Inr \<lparr>protocol = None, url_hostname = None, pathname = None\<rparr>),
      decodeURIComponent =
        (\<lambda>s. if CHR ''%'' \<in> set s then Inl URIError else Inr s),
      Number_toString = (\<lambda>n. ''0'')\<rparr>"

definition change_entry :: "string \<Rightarrow> string \<Rightarrow> json" where
  "change_entry name hash =
     JObj [(''new'', JObj [(''name'', JStr name), (''target'', JObj [(''hash'', JStr hash)])])]"

definition repository_entry :: json where
  "repository_entry =
     JObj [(''owner'', JObj [(''username'', JStr ''batman'')]),
           (''links'', JObj [(''html'', JObj [(''href'', JStr ''https://bitbucket.org/batman/test'')])])]"

definition push_payload :: "json list \<Rightarrow> (string \<times> json) list" where
  "push_payload changes =
     [(''actor'', JObj [(''username'', JStr ''robin'')]),
      (''repository'', repository_entry),
      (''push'', JObj [(''changes'', JArr changes)])]"

definition hook_headers :: "string \<Rightarrow> string \<rightharpoonup> string" where
  "hook_headers eventKey =
     [''x-event-key'' \<mapsto> eventKey, ''x-request-uuid'' \<mapsto> ''5f2a'']"

text \<open>Response bodies: a branch, a commit, a user, and a page of repositories.\<close>

definition branch_body :: jsval where
  "branch_body =
     Some (JObj [(''target'', JObj [(''hash'', JStr ''abc123'')]),
                 (''repository'', JObj [(''uuid'', JStr ''{1234}'')])])"

definition commit_body :: jsval where
  "commit_body =
     Some (JObj [(''message'', JStr ''fix the batmobile''),
                 (''author'', JObj [(''user'', JObj [(''username'', JStr ''robin'')])]),
                 (''links'', JObj [(''html'', JObj [(''href'', JStr ''https://bitbucket.org/c/abc123'')])])])"

definition user_body :: jsval where
  "user_body =
     Some (JObj [(''username'', JStr ''robin''),
                 (''display_name'', JStr ''Robin''),
                 (''links'', JObj [(''html'', JObj [(''href'', JStr ''https://bitbucket.org/robin'')]),
                                   (''avatar'', JObj [(''href'', JStr ''https://bitbucket.org/a.png'')])])])"

definition values_body :: "string list \<Rightarrow> jsval" where
  "values_body uuids =
     Some (JObj [(''values'', JArr (map (\<lambda>u. JObj [(''uuid'', JStr u)]) uuids))])"

text \<open>
  An instance that answers the branch, file and commit lookups of the reference
  \<^verbatim>\<open>bitbucket.org:batman/{1234}:master\<close> with one response and the lookup of the user
  \<^verbatim>\<open>robin\<close> with another.
\<close>

definition lookup_scm :: "response \<Rightarrow> response \<Rightarrow> bitbucketScm" where
  "lookup_scm r u =
     scm_with
       [(''https://api.bitbucket.org/2.0/repositories/batman/{1234}/refs/branches/master'', r),
        (''https://api.bitbucket.org/1.0/repositories/batman/{1234}/src/master/screwdriver.yaml'', r),
        (''https://api.bitbucket.org/2.0/repositories/batman/{1234}/commit/abc123'', r),
        (''https://api.bitbucket.org/2.0/users/robin'', u)]"

text \<open>
  An instance that answers the admin query and the push query with the given responses
  and the pull query with a page of two repositories.
\<close>

definition perm_scm :: "response \<Rightarrow> response \<Rightarrow> bitbucketScm" where
  "perm_scm admin_response push_response =
     scm_with
       [(''https://api.bitbucket.org/2.0/repositories/batman?role=admin'', admin_response),
        (''https://api.bitbucket.org/2.0/repositories/batman?role=contributor'', push_response),
        (''https://api.bitbucket.org/2.0/repositories/batman'',
         \<lparr>statusCode = 200, body = values_body [''{9999}'', ''{1234}'']\<rparr>)]"

text \<open>
  An instance whose breaker answers every request with 201 and hands the state and the
  description of the request's body back in the response.
\<close>

definition echo_scm :: bitbucketScm where
  "echo_scm =
     \<lparr>https = False, oauthClientId = ''id'', oauthClientSecret = ''secret'',
      runCommand =
        (\<lambda>options.
           Inr \<lparr>statusCode = 201,
                body =
                  (case o_body options of
                     None \<Rightarrow> None
                   | Some b \<Rightarrow>
                       Some (JObj
                         [(''state'',
                           (case sb_state b of Some (Str v) \<Rightarrow> JStr v | _ \<Rightarrow> JNull)),
                          (''description'', JStr (sb_description b))]))\<rparr>)\<rparr>"

section \<open>Properties of the split\<close>

lemma split_str_not_Nil: "split_str c s \<noteq> []"
  by (induction s) (auto split: list.splits)

lemma split_str_no_sep: "c \<notin> set s \<Longrightarrow> split_str c s = [s]"
  by (induction s) auto

lemma split_str_append_sep:
  "c \<notin> set a \<Longrightarrow> split_str c (a @ c # rest) = a # split_str c rest"
  by (induction a) auto

lemma nth_opt_length: "nth_opt xs i = (if i < length xs then Some (xs ! i) else None)"
  by (induction xs i rule: nth_opt.induct) auto

lemma nth_opt_Cons_numeral [simp]:
  "nth_opt (x # xs) (numeral k) = nth_opt xs (pred_numeral k)"
  by (simp add: numeral_eq_Suc)


lemma reach_paths:
  "reach v ''push.changes'' = reach_path v [''push'', ''changes'']"
  "reach v ''repository.links.html.href'' =
     reach_path v [''repository'', ''links'', ''html'', ''href'']"
  "reach v ''repository.owner.username'' = reach_path v [''repository'', ''owner'', ''username'']"
  "reach v ''actor.username'' = reach_path v [''actor'', ''username'']"
  "reach v ''new.name'' = reach_path v [''new'', ''name'']"
  "reach v ''new.target.hash'' = reach_path v [''new'', ''target'', ''hash'']"
  by (simp_all add: reach_def)

lemma split_repo_push: "split_str CHR '':'' ''repo:push'' = [''repo'', ''push'']"
  by simp

section \<open>The reference: decoding and round trip\<close>

text \<open>
  C4, as the specification states it: an input whose number of colon-separated parts is
  not three makes the decoding fail. The code does not: \<^verbatim>\<open>getScmUriParts\<close> has no check
  and no \<^verbatim>\<open>throw\<close>. On a reference of two parts it returns an object whose branch is
  \<^verbatim>\<open>undefined\<close>.
\<close>

theorem getScmUriParts_two_parts_returns:
  "length (split_str CHR '':'' ''bitbucket.org:batman/{1234}'') \<noteq> 3 \<and>
   getScmUriParts ''bitbucket.org:batman/{1234}'' =
     \<lparr>scm_hostname = Some ''bitbucket.org'', scm_repoId = Some ''batman/{1234}'',
      scm_branch = None\<rparr>"
  by (simp add: getScmUriParts_def)

text \<open>
  C4, amended: on an input whose number of parts is not three the decoding still returns.
  With one part only the hostname is defined, with two parts the branch is
  \<^verbatim>\<open>undefined\<close>, and with more than three parts the first three are taken and the others
  dropped. The input is neither repaired nor rejected.
\<close>

theorem getScmUriParts_other_part_counts:
  assumes "length (split_str CHR '':'' scmUri) \<noteq> 3"
  shows "(\<exists>h. split_str CHR '':'' scmUri = [h] \<and>
              getScmUriParts scmUri =
                \<lparr>scm_hostname = Some h, scm_repoId = None, scm_branch = None\<rparr>)
       \<or> (\<exists>h r. split_str CHR '':'' scmUri = [h, r] \<and>
              getScmUriParts scmUri =
                \<lparr>scm_hostname = Some h, scm_repoId = Some r, scm_branch = None\<rparr>)
       \<or> (\<exists>h r b x rest. split_str CHR '':'' scmUri = h # r # b # x # rest \<and>
              getScmUriParts scmUri =
                \<lparr>scm_hostname = Some h, scm_repoId = Some r, scm_branch = Some b\<rparr>)"
proof (cases "split_str CHR '':'' scmUri")
  case Nil
  then show ?thesis by (simp add: split_str_not_Nil)
next
  case (Cons h t)
  note c1 = this
  show ?thesis
  proof (cases t)
    case Nil
    with c1 show ?thesis by (simp add: getScmUriParts_def)
  next
    case (Cons r t2)
    note c2 = this
    show ?thesis
    proof (cases t2)
      case Nil
      with c1 c2 show ?thesis by (simp add: getScmUriParts_def)
    next
      case (Cons b t3)
      with assms c1 c2 obtain x rest where "t3 = x # rest"
        by (cases t3) auto
      with c1 c2 Cons show ?thesis by (simp add: getScmUriParts_def)
    qed
  qed
qed

theorem getScmUriParts_other_part_counts_witness:
  "length (split_str CHR '':'' ''bitbucket.org:batman/{1234}:master:extra'') \<noteq> 3 \<and>
   getScmUriParts ''bitbucket.org:batman/{1234}:master:extra'' =
     \<lparr>scm_hostname = Some ''bitbucket.org'', scm_repoId = Some ''batman/{1234}'',
      scm_branch = Some ''master''\<rparr>"
proof -
  have h: "length (split_str CHR '':'' ''bitbucket.org:batman/{1234}:master:extra'') \<noteq> 3"
    by simp
  show ?thesis
    using h getScmUriParts_other_part_counts [OF h] by (simp add: getScmUriParts_def)
qed

text \<open>
  C5: composing a reference from a hostname, a repository identifier and a branch that
  contain no colon, and decoding it, gives the three parts back. (The parts need not
  even be non-empty.)
\<close>

theorem getScmUriParts_composeScmUri:
  assumes "CHR '':'' \<notin> set hostname" and "CHR '':'' \<notin> set repositoryId"
    and "CHR '':'' \<notin> set branch"
  shows "getScmUriParts (composeScmUri hostname repositoryId branch) =
           \<lparr>scm_hostname = Some hostname, scm_repoId = Some repositoryId,
            scm_branch = Some branch\<rparr>"
  using assms
  by (simp add: getScmUriParts_def composeScmUri_def split_str_append_sep split_str_no_sep)

theorem getScmUriParts_composeScmUri_witness:
  "CHR '':'' \<notin> set ''bitbucket.org'' \<and> CHR '':'' \<notin> set ''batman/{1234}'' \<and>
   CHR '':'' \<notin> set ''master'' \<and>
   getScmUriParts (composeScmUri ''bitbucket.org'' ''batman/{1234}'' ''master'') =
     \<lparr>scm_hostname = Some ''bitbucket.org'', scm_repoId = Some ''batman/{1234}'',
      scm_branch = Some ''master''\<rparr>"
proof -
  have h: "CHR '':'' \<notin> set ''bitbucket.org''" and r: "CHR '':'' \<notin> set ''batman/{1234}''"
    and b: "CHR '':'' \<notin> set ''master''"
    by simp_all
  show ?thesis
    using h r b getScmUriParts_composeScmUri [OF h r b] by simp
qed

section \<open>Webhook normalisation: push events\<close>

lemmas example_hook_eval = parseHook_def Let_def bindE_def hook_headers_def reach_paths
  push_payload_def repository_entry_def example_deps_def change_entry_def
  hook_checkoutUrl_def str_null_def toString_def

text \<open>
  C1, as the specification states it: a push event reports the branch and the commit of
  the last entry of the change list. The code reads \<^verbatim>\<open>changes[0]\<close>: with the two changes
  \<^verbatim>\<open>master\<close> at \<^verbatim>\<open>abc123\<close> and then \<^verbatim>\<open>feature\<close> at \<^verbatim>\<open>def456\<close>, the event carries
  \<^verbatim>\<open>master\<close> and \<^verbatim>\<open>abc123\<close>, while the last entry is \<^verbatim>\<open>feature\<close> at \<^verbatim>\<open>def456\<close>.
\<close>

theorem parseHook_push_two_changes_reports_first:
  "parseHook example_deps (scm_with []) (hook_headers ''repo:push'')
     (push_payload [change_entry ''master'' ''abc123'', change_entry ''feature'' ''def456''])
   = Inr (Some
       \<lparr>p_hookId = Some ''5f2a'',
        p_type = ''repo'',
        p_action = ''push'',
        p_username = Some (JStr ''robin''),
        p_checkoutUrl = ''https://batman@bitbucket.org/batman/test.git'',
        p_branch = Some (JStr ''master''),
        p_sha = Some (JStr ''abc123''),
        p_prNum = None,
        p_prRef = None\<rparr>)
   \<and> reach (Some (last [change_entry ''master'' ''abc123'', change_entry ''feature'' ''def456'']))
       ''new.name'' = Some (JStr ''feature'')
   \<and> reach (Some (last [change_entry ''master'' ''abc123'', change_entry ''feature'' ''def456'']))
       ''new.target.hash'' = Some (JStr ''def456'')"
  by (simp add: example_hook_eval)

text \<open>
  C1, amended: for a webhook whose event key is \<^verbatim>\<open>repo:push\<close> and whose payload carries a
  non-empty list of push changes, every event that \<^verbatim>\<open>parseHook\<close> resolves to has type
  \<^verbatim>\<open>repo\<close>, action \<^verbatim>\<open>push\<close>, and the branch name and commit hash of the FIRST entry of the
  change list: its \<^verbatim>\<open>new.name\<close> and its \<^verbatim>\<open>new.target.hash\<close>. The second conjunct says when
  there is such an event: whenever \<^verbatim>\<open>url.parse\<close> accepts the repository's HTML link and
  the owner's name converts to a string for the checkout URL.
\<close>

theorem parseHook_push_first_change:
  assumes "headers ''x-event-key'' = Some ''repo:push''"
    and "reach (Some (JObj payload)) ''push.changes'' = Some (JArr (change # rest))"
  shows "(\<forall>ev. parseHook d this headers payload = Inr (Some ev) \<longrightarrow>
            p_type ev = ''repo'' \<and> p_action ev = ''push''
          \<and> p_branch ev = reach (Some change) ''new.name''
          \<and> p_sha ev = reach (Some change) ''new.target.hash'')
       \<and> (\<forall>link checkoutUrl.
            url_parse_value d (reach (Some (JObj payload)) ''repository.links.html.href'')
              = Inr link
          \<and> hook_checkoutUrl d link (reach (Some (JObj payload)) ''repository.owner.username'')
              = Inr checkoutUrl
          \<longrightarrow> parseHook d this headers payload =
                Inr (Some
                  \<lparr>p_hookId = headers ''x-request-uuid'',
                   p_type = ''repo'',
                   p_action = ''push'',
                   p_username = reach (Some (JObj payload)) ''actor.username'',
                   p_checkoutUrl = checkoutUrl,
                   p_branch = reach (Some change) ''new.name'',
                   p_sha = reach (Some change) ''new.target.hash'',
                   p_prNum = None,
                   p_prRef = None\<rparr>))"
  using assms
  by (auto simp: parseHook_def Let_def bindE_def split_repo_push split: sum.splits)

lemma example_push_changes:
  "reach (Some (JObj (push_payload cs))) ''push.changes'' = Some (JArr cs)"
  by (simp add: reach_paths push_payload_def)

lemma example_push_link:
  "url_parse_value example_deps
     (reach (Some (JObj (push_payload cs))) ''repository.links.html.href'')
     = Inr \<lparr>protocol = Some ''https:'', url_hostname = Some ''bitbucket.org'',
            pathname = Some ''/batman/test''\<rparr>
   \<and> hook_checkoutUrl example_deps
       \<lparr>protocol = Some ''https:'', url_hostname = Some ''bitbucket.org'',
        pathname = Some ''/batman/test''\<rparr>
       (reach (Some (JObj (push_payload cs))) ''repository.owner.username'')
     = Inr ''https://batman@bitbucket.org/batman/test.git''"
  by (simp add: reach_paths push_payload_def repository_entry_def example_deps_def
      hook_checkoutUrl_def str_null_def toString_def bindE_def)

lemma example_event_key: "hook_headers k ''x-event-key'' = Some k"
  by (simp add: hook_headers_def)

theorem parseHook_push_first_change_witness:
  "parseHook example_deps (scm_with []) (hook_headers ''repo:push'')
     (push_payload [change_entry ''main'' ''abc123'', change_entry ''dev'' ''def456''])
   = Inr (Some
       \<lparr>p_hookId = Some ''5f2a'',
        p_type = ''repo'',
        p_action = ''push'',
        p_username = Some (JStr ''robin''),
        p_checkoutUrl = ''https://batman@bitbucket.org/batman/test.git'',
        p_branch = Some (JStr ''main''),
        p_sha = Some (JStr ''abc123''),
        p_prNum = None,
        p_prRef = None\<rparr>)"
  using parseHook_push_first_change
    [of "hook_headers ''repo:push''"
        "push_payload [change_entry ''main'' ''abc123'', change_entry ''dev'' ''def456'']"
        "change_entry ''main'' ''abc123''" "[change_entry ''dev'' ''def456'']"
        example_deps "scm_with []",
     OF example_event_key example_push_changes, THEN conjunct2, rule_format,
     OF example_push_link]
  by (simp add: reach_paths change_entry_def push_payload_def hook_headers_def)




section \<open>Webhook normalisation: pull requests\<close>

text \<open>The table of the code: the third key is spelt \<^verbatim>\<open>fullfilled\<close>.\<close>

lemma pullrequest_action_table:
  "pullrequest_action (Some ''created'') = Some ''opened''"
  "pullrequest_action (Some ''updated'') = Some ''synchronized''"
  "pullrequest_action (Some ''fullfilled'') = Some ''closed''"
  "pullrequest_action (Some ''rejected'') = Some ''closed''"
  "pullrequest_action (Some ''fulfilled'') = None"
  "pullrequest_action None = None"
  by (simp_all add: pullrequest_action_def)

text \<open>
  C2: the action \<^verbatim>\<open>fulfilled\<close> of a pull request is to be mapped to \<^verbatim>\<open>closed\<close>. The code
  compares with \<^verbatim>\<open>fullfilled\<close>, so the event key \<^verbatim>\<open>pullrequest:fulfilled\<close> falls through to
  the last branch and the webhook is ignored, whatever its payload.
\<close>

theorem parseHook_pullrequest_fulfilled_ignored:
  "parseHook d this [''x-event-key'' \<mapsto> ''pullrequest:fulfilled''] payload = Inr None"
  by (simp add: parseHook_def Let_def pullrequest_action_def)

section \<open>Resolving a checkout URL: the repository identifier\<close>

lemma split_composeScmUri:
  "CHR '':'' \<notin> set h \<Longrightarrow> CHR '':'' \<notin> set r \<Longrightarrow>
   split_str CHR '':'' (composeScmUri h r b) = h # r # split_str CHR '':'' b"
  by (simp add: composeScmUri_def split_str_append_sep)

lemmas example_parseUrl_eval = parseUrl_def getRepoInfo_def example_deps_def example_match_def
  bindE_def parseUrl_options_def get_options_def REPO_URL_def API_URL_V2_def
  str_undefined_def scm_with_def branch_body_def composeScmUri_def toString_def
  MATCH_COMPONENT_BRANCH_def MATCH_COMPONENT_HOSTNAME_def MATCH_COMPONENT_REPO_def
  MATCH_COMPONENT_USER_def

text \<open>
  C3, as the specification states it: the middle field of the reference is the
  provider's stable identifier, holds no owner or repo slug, and so survives a rename of
  the owner/repo path. The code writes \<^verbatim>\<open>`${repoInfo.username}/${uuid}`\<close> there. The same
  repository (uuid \<^verbatim>\<open>{1234}\<close>) resolved under the owner name \<^verbatim>\<open>batman\<close> and, after a
  rename, under \<^verbatim>\<open>wayne\<close>, gives two references with different middle fields, each
  holding the owner slug.
\<close>

theorem parseUrl_repoId_holds_owner_slug:
  "parseUrl example_deps
     (scm_with [(''https://api.bitbucket.org/2.0/repositories/batman/test/refs/branches/master'',
                 \<lparr>statusCode = 200, body = branch_body\<rparr>)])
     ''https://batman@bitbucket.org/batman/test.git#master'' ''token''
   = Inr ''bitbucket.org:batman/{1234}:master''
   \<and> parseUrl example_deps
     (scm_with [(''https://api.bitbucket.org/2.0/repositories/wayne/test/refs/branches/master'',
                 \<lparr>statusCode = 200, body = branch_body\<rparr>)])
     ''https://batman@bitbucket.org/wayne/test.git#master'' ''token''
   = Inr ''bitbucket.org:wayne/{1234}:master''
   \<and> scm_repoId (getScmUriParts ''bitbucket.org:batman/{1234}:master'') = Some ''batman/{1234}''
   \<and> scm_repoId (getScmUriParts ''bitbucket.org:wayne/{1234}:master'') = Some ''wayne/{1234}''"
  by (simp add: example_parseUrl_eval getScmUriParts_def)

text \<open>
  C3, amended: for every checkout URL that \<^verbatim>\<open>parseUrl\<close> resolves, the reference is
  \<^verbatim>\<open>hostname:owner/uuid:branch\<close>, where \<^verbatim>\<open>hostname\<close>, \<^verbatim>\<open>owner\<close> and \<^verbatim>\<open>branch\<close> are what the
  checkout URL expression matched in the URL and \<^verbatim>\<open>uuid\<close> is the text of
  \<^verbatim>\<open>repository.uuid\<close> in the 200 response of the branch lookup. The repo slug of the URL
  does not enter the reference (the uuid stands in for it); the owner slug does. When
  hostname, owner and uuid hold no colon, decoding the reference gives \<^verbatim>\<open>owner/uuid\<close> as
  its middle field.
\<close>

theorem parseUrl_repoId_is_owner_and_uuid:
  assumes "parseUrl d this checkoutUrl token = Inr ref"
  shows "\<exists>info response repository uuid u.
           getRepoInfo d checkoutUrl = Inr info
         \<and> runCommand this (parseUrl_options info token) = Inr response
         \<and> statusCode response = 200
         \<and> get_prop (body response) ''repository'' = Inr repository
         \<and> get_prop repository ''uuid'' = Inr uuid
         \<and> toString d uuid = Inr u
         \<and> ref = composeScmUri (str_undefined (ri_hostname info))
                   (str_undefined (ri_username info) @ ''/'' @ u) (ri_branch info)
         \<and> (CHR '':'' \<notin> set (str_undefined (ri_hostname info))
              \<and> CHR '':'' \<notin> set (str_undefined (ri_username info))
              \<and> CHR '':'' \<notin> set u
            \<longrightarrow> scm_repoId (getScmUriParts ref)
                  = Some (str_undefined (ri_username info) @ ''/'' @ u))"
proof -
  from assms obtain info response repository uuid u
    where info: "getRepoInfo d checkoutUrl = Inr info"
      and response: "runCommand this (parseUrl_options info token) = Inr response"
      and status: "statusCode response = 200"
      and repository: "get_prop (body response) ''repository'' = Inr repository"
      and uuid: "get_prop repository ''uuid'' = Inr uuid"
      and u: "toString d uuid = Inr u"
      and ref: "ref = composeScmUri (str_undefined (ri_hostname info))
                   (str_undefined (ri_username info) @ ''/'' @ u) (ri_branch info)"
    by (auto simp: parseUrl_def bindE_def split: sum.splits if_splits)
  have "scm_repoId (getScmUriParts ref) = Some (str_undefined (ri_username info) @ ''/'' @ u)"
    if "CHR '':'' \<notin> set (str_undefined (ri_hostname info))"
      and "CHR '':'' \<notin> set (str_undefined (ri_username info))"
      and "CHR '':'' \<notin> set u"
  proof -
    from that have "CHR '':'' \<notin> set (str_undefined (ri_username info) @ ''/'' @ u)"
      by simp
    with that(1) show ?thesis
      unfolding ref by (simp add: getScmUriParts_def split_composeScmUri del: set_append)
  qed
  with info response status repository uuid u ref show ?thesis
    by blast
qed

lemma example_parseUrl_resolves:
  "parseUrl example_deps
     (scm_with [(''https://api.bitbucket.org/2.0/repositories/batman/test/refs/branches/master'',
                 \<lparr>statusCode = 200, body = branch_body\<rparr>)])
     ''https://batman@bitbucket.org/batman/test.git#master'' ''token''
   = Inr ''bitbucket.org:batman/{1234}:master''"
  by (simp add: example_parseUrl_eval)

lemma example_getRepoInfo:
  "getRepoInfo example_deps ''https://batman@bitbucket.org/batman/test.git#master'' =
     Inr \<lparr>ri_hostname = Some ''bitbucket.org'', ri_repo = Some ''test'',
          ri_branch = ''master'', ri_username = Some ''batman''\<rparr>"
  by (simp add: getRepoInfo_def example_deps_def example_match_def
      MATCH_COMPONENT_BRANCH_def MATCH_COMPONENT_HOSTNAME_def MATCH_COMPONENT_REPO_def
      MATCH_COMPONENT_USER_def)

lemma example_branch_lookup:
  "runCommand
     (scm_with [(''https://api.bitbucket.org/2.0/repositories/batman/test/refs/branches/master'',
                 \<lparr>statusCode = 200, body = branch_body\<rparr>)])
     (parseUrl_options
        \<lparr>ri_hostname = Some ''bitbucket.org'', ri_repo = Some ''test'',
         ri_branch = ''master'', ri_username = Some ''batman''\<rparr> ''token'')
   = Inr \<lparr>statusCode = 200, body = branch_body\<rparr>"
  by (simp add: scm_with_def parseUrl_options_def get_options_def REPO_URL_def API_URL_V2_def
      str_undefined_def)

theorem parseUrl_repoId_is_owner_and_uuid_witness:
  "parseUrl example_deps
     (scm_with [(''https://api.bitbucket.org/2.0/repositories/batman/test/refs/branches/master'',
                 \<lparr>statusCode = 200, body = branch_body\<rparr>)])
     ''https://batman@bitbucket.org/batman/test.git#master'' ''token''
   = Inr ''bitbucket.org:batman/{1234}:master''
   \<and> scm_repoId (getScmUriParts ''bitbucket.org:batman/{1234}:master'') = Some ''batman/{1234}''"
proof -
  from parseUrl_repoId_is_owner_and_uuid [OF example_parseUrl_resolves]
  have "scm_repoId (getScmUriParts ''bitbucket.org:batman/{1234}:master'')
          = Some ''batman/{1234}''"
  proof (elim exE conjE)
    fix info response repository uuid u
    assume info: "getRepoInfo example_deps
          ''https://batman@bitbucket.org/batman/test.git#master'' = Inr info"
      and response: "runCommand
          (scm_with
            [(''https://api.bitbucket.org/2.0/repositories/batman/test/refs/branches/master'',
              \<lparr>statusCode = 200, body = branch_body\<rparr>)])
          (parseUrl_options info ''token'') = Inr response"
      and repository: "get_prop (body response) ''repository'' = Inr repository"
      and uuid: "get_prop repository ''uuid'' = Inr uuid"
      and u: "toString example_deps uuid = Inr u"
      and decode: "CHR '':'' \<notin> set (str_undefined (ri_hostname info))
              \<and> CHR '':'' \<notin> set (str_undefined (ri_username info))
              \<and> CHR '':'' \<notin> set u
            \<longrightarrow> scm_repoId (getScmUriParts ''bitbucket.org:batman/{1234}:master'')
                  = Some (str_undefined (ri_username info) @ ''/'' @ u)"
    from info example_getRepoInfo
    have i: "info = \<lparr>ri_hostname = Some ''bitbucket.org'', ri_repo = Some ''test'',
          ri_branch = ''master'', ri_username = Some ''batman''\<rparr>"
      by simp
    from response example_branch_lookup
    have r: "response = \<lparr>statusCode = 200, body = branch_body\<rparr>"
      unfolding i by simp
    from repository have "repository = Some (JObj [(''uuid'', JStr ''{1234}'')])"
      unfolding r by (simp add: branch_body_def)
    with uuid have "uuid = Some (JStr ''{1234}'')"
      by simp
    with u have "u = ''{1234}''"
      by (simp add: toString_def)
    with decode show ?thesis
      unfolding i by (simp add: str_undefined_def)
  qed
  with example_parseUrl_resolves show ?thesis by (simp only: simp_thms)
qed

section \<open>Permissions: all three answers or a failure\<close>

lemma getPerm_non_200:
  assumes "runCommand this (getPerm_options repoId access token) = Inr response"
    and "statusCode response \<noteq> 200"
  shows "getPerm this repoId access token =
           Inl (StatusCode (statusCode response) (body response))"
  using assms by (simp add: getPerm_def bindE_def)

lemma Promise_all_Inr:
  "Promise_all [a, b, c] (Inr [x, y, z]) \<longleftrightarrow> a = Inr x \<and> b = Inr y \<and> c = Inr z"
  by (auto simp: Promise_all_def)

lemma Promise_all_Inl:
  "Promise_all [a, b, c] (Inl e) \<longleftrightarrow> a = Inl e \<or> b = Inl e \<or> c = Inl e"
  by (auto simp: Promise_all_def)

text \<open>
  On a list of objects, \<^verbatim>\<open>some\<close> is the membership test: is there an element whose
  \<^verbatim>\<open>uuid\<close> is the string sought.
\<close>

lemma some_uuid_objects:
  assumes "list_all (\<lambda>r. \<exists>kvs. r = JObj kvs) rs"
  shows "some_uuid (Some u) rs =
           Inr (list_ex (\<lambda>r. get_prop (Some r) ''uuid'' = Inr (Some (JStr u))) rs)"
  using assms
proof (induction rs)
  case Nil
  then show ?case by simp
next
  case (Cons r rs)
  then obtain kvs where r: "r = JObj kvs" by auto
  have eq: "strict_eq (map_of kvs ''uuid'') (Some u) = (map_of kvs ''uuid'' = Some (JStr u))"
    by (cases "(map_of kvs ''uuid'', Some u)" rule: strict_eq.cases) auto
  from Cons r eq show ?case by (simp add: bindE_def)
qed

text \<open>The call always has an outcome: a result or a failure.\<close>

lemma getPermissions_outcome_exists: "\<exists>res. getPermissions this scmUri token res"
proof (cases "scm_repoId (getScmUriParts scmUri)")
  case None
  then show ?thesis by (simp add: getPermissions_def)
next
  case (Some repoId)
  show ?thesis
  proof (cases "getPerm this repoId ''admin'' token")
    case (Inl e)
    with Some have "getPermissions this scmUri token (Inl e)"
      by (simp add: getPermissions_def Promise_all_Inl)
    then show ?thesis ..
  next
    case a: (Inr x)
    show ?thesis
    proof (cases "getPerm this repoId ''push'' token")
      case (Inl e)
      with Some have "getPermissions this scmUri token (Inl e)"
        by (simp add: getPermissions_def Promise_all_Inl)
      then show ?thesis ..
    next
      case b: (Inr y)
      show ?thesis
      proof (cases "getPerm this repoId ''pull'' token")
        case (Inl e)
        with Some have "getPermissions this scmUri token (Inl e)"
          by (simp add: getPermissions_def Promise_all_Inl)
        then show ?thesis ..
      next
        case c: (Inr z)
        with Some a b
        have "getPermissions this scmUri token
                (Inr \<lparr>perm_admin = x, perm_push = y, perm_pull = z\<rparr>)"
          by (simp add: getPermissions_def Promise_all_Inr)
        then show ?thesis ..
      qed
    qed
  qed
qed

lemma example_repoId:
  "scm_repoId (getScmUriParts ''bitbucket.org:batman/{1234}:master'') = Some ''batman/{1234}''"
  by (simp add: getScmUriParts_def)

lemmas perm_eval = getPermissions_def getPerm_def getPerm_options_def get_options_def
  API_URL_V2_def str_undefined_def perm_scm_def scm_with_def values_body_def bindE_def
  Promise_all_def getScmUriParts_def

text \<open>
  C6, as the specification states it: when one of the three queries is answered with a
  status outside 200..299, the whole call fails with the upstream error. Here the push
  query is answered with 500 and the admin query with 200 and a body without
  \<^verbatim>\<open>values\<close>, so the admin query fails too, with a TypeError. \<^verbatim>\<open>Promise.all\<close> rejects with
  whichever failure comes first: the call can fail with the TypeError.
\<close>

theorem getPermissions_may_fail_with_another_error:
  "runCommand
     (perm_scm \<lparr>statusCode = 200, body = Some (JObj [])\<rparr>
        \<lparr>statusCode = 500, body = Some (JStr ''Internal Server Error'')\<rparr>)
     (getPerm_options ''batman/{1234}'' ''push'' ''token'')
     = Inr \<lparr>statusCode = 500, body = Some (JStr ''Internal Server Error'')\<rparr>
   \<and> getPerm
       (perm_scm \<lparr>statusCode = 200, body = Some (JObj [])\<rparr>
          \<lparr>statusCode = 500, body = Some (JStr ''Internal Server Error'')\<rparr>)
       ''batman/{1234}'' ''admin'' ''token'' = Inl TypeError
   \<and> getPermissions
       (perm_scm \<lparr>statusCode = 200, body = Some (JObj [])\<rparr>
          \<lparr>statusCode = 500, body = Some (JStr ''Internal Server Error'')\<rparr>)
       ''bitbucket.org:batman/{1234}:master'' ''token'' (Inl TypeError)"
  by (simp add: perm_eval)

text \<open>
  C6, amended: \<^verbatim>\<open>getPermissions\<close> makes the three queries \<^verbatim>\<open>admin\<close>, \<^verbatim>\<open>push\<close> and \<^verbatim>\<open>pull\<close>.
  For any outcome \<open>res\<close> of the call:
  \<^item> a result carries the answers of all three queries, each of which succeeded: there
    is no partial result;
  \<^item> if one of the queries is answered with a status outside 200..299, that query fails
    with the status error (status code and body), and the whole call fails: with that
    status error, or with the error of another of the three queries that failed as
    well (so with that status error whenever the other two queries succeed);
  \<^item> a query answered with 200 and a list of repository objects is answered by the test
    whether the uuid of the reference is the \<^verbatim>\<open>uuid\<close> of an element of the list.
\<close>

theorem getPermissions_all_or_nothing:
  assumes repoId: "scm_repoId (getScmUriParts scmUri) = Some repoId"
    and outcome: "getPermissions this scmUri token res"
  shows "(\<forall>p. res = Inr p \<longrightarrow>
            getPerm this repoId ''admin'' token = Inr (perm_admin p)
          \<and> getPerm this repoId ''push'' token = Inr (perm_push p)
          \<and> getPerm this repoId ''pull'' token = Inr (perm_pull p))
       \<and> (\<forall>access response.
            (access = ''admin'' \<or> access = ''push'' \<or> access = ''pull'')
          \<and> runCommand this (getPerm_options repoId access token) = Inr response
          \<and> \<not> (200 \<le> statusCode response \<and> statusCode response < 300)
          \<longrightarrow> getPerm this repoId access token =
                Inl (StatusCode (statusCode response) (body response))
            \<and> (\<exists>e. res = Inl e
                  \<and> (e = StatusCode (statusCode response) (body response)
                      \<or> (\<exists>other. (other = ''admin'' \<or> other = ''push'' \<or> other = ''pull'')
                            \<and> other \<noteq> access
                            \<and> getPerm this repoId other token = Inl e))))
       \<and> (\<forall>access response owner uuid rs.
            split_str CHR ''/'' repoId = [owner, uuid]
          \<and> runCommand this (getPerm_options repoId access token) = Inr response
          \<and> statusCode response = 200
          \<and> get_prop (body response) ''values'' = Inr (Some (JArr rs))
          \<and> list_all (\<lambda>r. \<exists>kvs. r = JObj kvs) rs
          \<longrightarrow> getPerm this repoId access token =
                Inr (list_ex (\<lambda>r. get_prop (Some r) ''uuid'' = Inr (Some (JStr uuid))) rs))"
proof (intro conjI allI impI)
  fix p assume "res = Inr p"
  with repoId outcome
  show "getPerm this repoId ''admin'' token = Inr (perm_admin p)"
    and "getPerm this repoId ''push'' token = Inr (perm_push p)"
    and "getPerm this repoId ''pull'' token = Inr (perm_pull p)"
    by (simp_all add: getPermissions_def Promise_all_Inr)
next
  fix access response
  assume h: "(access = ''admin'' \<or> access = ''push'' \<or> access = ''pull'')
          \<and> runCommand this (getPerm_options repoId access token) = Inr response
          \<and> \<not> (200 \<le> statusCode response \<and> statusCode response < 300)"
  then have ne: "statusCode response \<noteq> 200" by auto
  with h show failed: "getPerm this repoId access token =
                Inl (StatusCode (statusCode response) (body response))"
    by (simp add: getPerm_non_200)
  show "\<exists>e. res = Inl e
          \<and> (e = StatusCode (statusCode response) (body response)
              \<or> (\<exists>other. (other = ''admin'' \<or> other = ''push'' \<or> other = ''pull'')
                    \<and> other \<noteq> access
                    \<and> getPerm this repoId other token = Inl e))"
  proof (cases res)
    case (Inl e)
    with repoId outcome
    have one: "getPerm this repoId ''admin'' token = Inl e
             \<or> getPerm this repoId ''push'' token = Inl e
             \<or> getPerm this repoId ''pull'' token = Inl e"
      by (simp add: getPermissions_def Promise_all_Inl)
    have "e = StatusCode (statusCode response) (body response)
        \<or> (\<exists>other. (other = ''admin'' \<or> other = ''push'' \<or> other = ''pull'')
              \<and> other \<noteq> access
              \<and> getPerm this repoId other token = Inl e)"
    proof (cases "e = StatusCode (statusCode response) (body response)")
      case True
      then show ?thesis ..
    next
      case False
      with failed have diff: "getPerm this repoId access token \<noteq> Inl e"
        by simp
      from one diff have "\<exists>other. (other = ''admin'' \<or> other = ''push'' \<or> other = ''pull'')
              \<and> other \<noteq> access
              \<and> getPerm this repoId other token = Inl e"
        by metis
      then show ?thesis ..
    qed
    with Inl show ?thesis by simp
  next
    case (Inr p)
    with repoId outcome have "getPerm this repoId ''admin'' token = Inr (perm_admin p)"
      and "getPerm this repoId ''push'' token = Inr (perm_push p)"
      and "getPerm this repoId ''pull'' token = Inr (perm_pull p)"
      by (simp_all add: getPermissions_def Promise_all_Inr)
    with h failed show ?thesis by auto
  qed
next
  fix access response owner uuid rs
  assume h: "split_str CHR ''/'' repoId = [owner, uuid]
          \<and> runCommand this (getPerm_options repoId access token) = Inr response
          \<and> statusCode response = 200
          \<and> get_prop (body response) ''values'' = Inr (Some (JArr rs))
          \<and> list_all (\<lambda>r. \<exists>kvs. r = JObj kvs) rs"
  then show "getPerm this repoId access token =
                Inr (list_ex (\<lambda>r. get_prop (Some r) ''uuid'' = Inr (Some (JStr uuid))) rs)"
    by (simp add: getPerm_def bindE_def some_uuid_objects)
qed


theorem getPermissions_all_or_nothing_witness:
  "getPermissions
     (perm_scm \<lparr>statusCode = 200, body = values_body [''{1234}'']\<rparr>
        \<lparr>statusCode = 500, body = Some (JStr ''Internal Server Error'')\<rparr>)
     ''bitbucket.org:batman/{1234}:master'' ''token''
     (Inl (StatusCode 500 (Some (JStr ''Internal Server Error''))))
   \<and> getPerm
       (perm_scm \<lparr>statusCode = 200, body = values_body [''{1234}'']\<rparr>
          \<lparr>statusCode = 500, body = Some (JStr ''Internal Server Error'')\<rparr>)
       ''batman/{1234}'' ''push'' ''token''
       = Inl (StatusCode 500 (Some (JStr ''Internal Server Error'')))
   \<and> getPerm
       (perm_scm \<lparr>statusCode = 200, body = values_body [''{1234}'']\<rparr>
          \<lparr>statusCode = 500, body = Some (JStr ''Internal Server Error'')\<rparr>)
       ''batman/{1234}'' ''pull'' ''token'' = Inr True
   \<and> getPermissions
       (perm_scm \<lparr>statusCode = 200, body = values_body [''{1234}'']\<rparr>
          \<lparr>statusCode = 200, body = values_body []\<rparr>)
       ''bitbucket.org:batman/{1234}:master'' ''token''
       (Inr \<lparr>perm_admin = True, perm_push = False, perm_pull = True\<rparr>)
   \<and> getPerm
       (perm_scm \<lparr>statusCode = 200, body = values_body [''{1234}'']\<rparr>
          \<lparr>statusCode = 200, body = values_body []\<rparr>)
       ''batman/{1234}'' ''push'' ''token'' = Inr False"
proof -
  let ?admin = "\<lparr>statusCode = 200, body = values_body [''{1234}'']\<rparr>"
  let ?bad = "\<lparr>statusCode = 500, body = Some (JStr ''Internal Server Error'')\<rparr>"
  let ?ok = "\<lparr>statusCode = 200, body = values_body []\<rparr>"
  let ?pull = "\<lparr>statusCode = 200, body = values_body [''{9999}'', ''{1234}'']\<rparr>"
  let ?rs = "[JObj [(''uuid'', JStr ''{9999}'')], JObj [(''uuid'', JStr ''{1234}'')]]"
  have out_bad: "getPermissions (perm_scm ?admin ?bad)
     ''bitbucket.org:batman/{1234}:master'' ''token''
     (Inl (StatusCode 500 (Some (JStr ''Internal Server Error''))))"
    by (simp add: perm_eval)
  have out_ok: "getPermissions (perm_scm ?admin ?ok)
     ''bitbucket.org:batman/{1234}:master'' ''token''
     (Inr \<lparr>perm_admin = True, perm_push = False, perm_pull = True\<rparr>)"
    by (simp add: perm_eval)
  note bad = getPermissions_all_or_nothing [OF example_repoId out_bad]
  note ok = getPermissions_all_or_nothing [OF example_repoId out_ok]
  have req: "(''push'' = ''admin'' \<or> ''push'' = ''push'' \<or> ''push'' = ''pull'')
     \<and> runCommand (perm_scm ?admin ?bad) (getPerm_options ''batman/{1234}'' ''push'' ''token'')
         = Inr ?bad
     \<and> \<not> (200 \<le> statusCode ?bad \<and> statusCode ?bad < 300)"
    by (simp add: perm_eval)
  have push: "getPerm (perm_scm ?admin ?bad) ''batman/{1234}'' ''push'' ''token''
     = Inl (StatusCode 500 (Some (JStr ''Internal Server Error'')))"
    using bad [THEN conjunct2, THEN conjunct1, rule_format, OF req] by simp
  have pull_req: "split_str CHR ''/'' ''batman/{1234}'' = [''batman'', ''{1234}'']
     \<and> runCommand (perm_scm ?admin ?bad) (getPerm_options ''batman/{1234}'' ''pull'' ''token'')
         = Inr ?pull
     \<and> statusCode ?pull = 200
     \<and> get_prop (body ?pull) ''values'' = Inr (Some (JArr ?rs))
     \<and> list_all (\<lambda>r. \<exists>kvs. r = JObj kvs) ?rs"
    by (simp add: perm_eval)
  have pull: "getPerm (perm_scm ?admin ?bad) ''batman/{1234}'' ''pull'' ''token'' = Inr True"
    using bad [THEN conjunct2, THEN conjunct2, rule_format, OF pull_req] by simp
  have okp: "getPerm (perm_scm ?admin ?ok) ''batman/{1234}'' ''push'' ''token'' = Inr False"
    using ok [THEN conjunct1, rule_format, OF refl] by simp
  from push pull okp out_bad out_ok show ?thesis
    by (simp only: simp_thms)
qed

section \<open>Commit status: the state table and the description\<close>

text \<open>
  C7: \<^verbatim>\<open>updateCommitStatus\<close> maps the build status by the fixed table (\<^verbatim>\<open>SUCCESS\<close> to
  \<^verbatim>\<open>SUCCESSFUL\<close>, \<^verbatim>\<open>RUNNING\<close> and \<^verbatim>\<open>QUEUED\<close> to \<^verbatim>\<open>INPROGRESS\<close>, \<^verbatim>\<open>FAILURE\<close> to \<^verbatim>\<open>FAILED\<close>,
  \<^verbatim>\<open>ABORTED\<close> to \<^verbatim>\<open>STOPPED\<close>) and sets the description to \<^verbatim>\<open>Screwdriver/<jobName>\<close> when a
  job name (a string that is not empty) is supplied and to \<^verbatim>\<open>Screwdriver\<close> when none is.
  The last conjunct is about the method itself. If decoding the token throws, the
  method fails with that error. Otherwise the method hands the breaker one request, a
  POST whose body is the body above, and its outcome is the breaker's outcome for that
  request: a rejection, the status error when the response is neither 201 nor 200, and
  else the response.
\<close>

theorem updateCommitStatus_state_and_description:
  "sb_state (commitStatus_body target sha ''SUCCESS'' jobName) = Some (Str ''SUCCESSFUL'')
   \<and> sb_state (commitStatus_body target sha ''RUNNING'' jobName) = Some (Str ''INPROGRESS'')
   \<and> sb_state (commitStatus_body target sha ''QUEUED'' jobName) = Some (Str ''INPROGRESS'')
   \<and> sb_state (commitStatus_body target sha ''FAILURE'' jobName) = Some (Str ''FAILED'')
   \<and> sb_state (commitStatus_body target sha ''ABORTED'' jobName) = Some (Str ''STOPPED'')
   \<and> sb_description (commitStatus_body target sha buildStatus (Some (c # cs)))
       = ''Screwdriver/'' @ c # cs
   \<and> sb_description (commitStatus_body target sha buildStatus None) = ''Screwdriver''
   \<and> (case updateCommitStatus_options d scmUri sha buildStatus token target jobName of
         Inl e \<Rightarrow>
           decodeURIComponent d token = Inl e
         \<and> updateCommitStatus d this scmUri sha buildStatus token target jobName = Inl e
       | Inr options \<Rightarrow>
           o_method options = ''POST''
         \<and> o_body options = Some (commitStatus_body target sha buildStatus jobName)
         \<and> updateCommitStatus d this scmUri sha buildStatus token target jobName =
             (case runCommand this options of
                Inl e \<Rightarrow> Inl e
              | Inr response \<Rightarrow>
                  if statusCode response \<noteq> 201 \<and> statusCode response \<noteq> 200
                    then Inl (StatusCode (statusCode response) (body response))
                  else Inr response))"
  by (simp add: commitStatus_body_def STATE_MAP_def updateCommitStatus_def
      updateCommitStatus_options_def bindE_def split: sum.splits)

lemma example_status_options:
  "updateCommitStatus_options example_deps ''bitbucket.org:batman/{1234}:master'' ''abc123''
     ''QUEUED'' ''token'' ''https://cd.screwdriver.cd/builds/7'' (Some ''main'')
   = Inr \<lparr>o_url = ''https://api.bitbucket.org/2.0/repositories/batman/{1234}/commit/abc123/statuses/build'',
          o_method = ''POST'',
          o_json = True,
          o_body = Some \<lparr>sb_url = ''https://cd.screwdriver.cd/builds/7'',
                          sb_state = Some (Str ''INPROGRESS''),
                          sb_key = ''abc123'',
                          sb_description = ''Screwdriver/main''\<rparr>,
          o_bearer = ''token''\<rparr>"
  by (simp add: updateCommitStatus_options_def example_deps_def bindE_def commitStatus_body_def
      STATE_MAP_def REPO_URL_def API_URL_V2_def getScmUriParts_def str_undefined_def)

theorem updateCommitStatus_state_and_description_witness:
  "updateCommitStatus example_deps echo_scm ''bitbucket.org:batman/{1234}:master'' ''abc123''
     ''QUEUED'' ''token'' ''https://cd.screwdriver.cd/builds/7'' (Some ''main'')
   = Inr \<lparr>statusCode = 201,
          body = Some (JObj [(''state'', JStr ''INPROGRESS''),
                             (''description'', JStr ''Screwdriver/main'')])\<rparr>"
  using updateCommitStatus_state_and_description
    [where target = "''https://cd.screwdriver.cd/builds/7''" and sha = "''abc123''"
       and jobName = "Some ''main''" and buildStatus = "''QUEUED''"
       and d = example_deps and scmUri = "''bitbucket.org:batman/{1234}:master''"
       and token = "''token''" and this = echo_scm]
  by (simp add: example_status_options echo_scm_def)

section \<open>Lookups: what a response status does\<close>

lemmas lookup_eval = getCommitSha_def getCommitSha_options_def getFile_def getFile_options_def
  decorateCommit_def decorateCommit_options_def decorateAuthor_def decorateAuthor_options_def
  get_options_def REPO_URL_def USER_URL_def API_URL_V1_def API_URL_V2_def str_undefined_def
  lookup_scm_def scm_with_def bindE_def getScmUriParts_def ref_or_branch_def toString_def

text \<open>
  C8, as the specification states it: each lookup fails with a not-found error on 404,
  with the upstream error on another status outside 200..299, and never on a 2xx
  response. The code tests \<^verbatim>\<open>response.statusCode !== 200\<close> only: the response 204 makes
  \<^verbatim>\<open>getCommitSha\<close> throw, and on 404 all three throw the same \<^verbatim>\<open>STATUS CODE\<close> error that
  any other status gives (the separate \<^verbatim>\<open>Cannot find repository\<close> error exists in
  \<^verbatim>\<open>_parseUrl\<close> alone).
\<close>

theorem lookups_204_and_404_status_error:
  "getCommitSha (lookup_scm \<lparr>statusCode = 204, body = None\<rparr> \<lparr>statusCode = 200, body = user_body\<rparr>)
     ''bitbucket.org:batman/{1234}:master'' ''token'' = Inl (StatusCode 204 None)
   \<and> getCommitSha
       (lookup_scm \<lparr>statusCode = 404, body = Some (JStr ''Not Found'')\<rparr>
          \<lparr>statusCode = 200, body = user_body\<rparr>)
       ''bitbucket.org:batman/{1234}:master'' ''token''
     = Inl (StatusCode 404 (Some (JStr ''Not Found'')))
   \<and> getFile
       (lookup_scm \<lparr>statusCode = 404, body = Some (JStr ''Not Found'')\<rparr>
          \<lparr>statusCode = 200, body = user_body\<rparr>)
       ''bitbucket.org:batman/{1234}:master'' ''screwdriver.yaml'' ''token'' None
     = Inl (StatusCode 404 (Some (JStr ''Not Found'')))
   \<and> decorateCommit example_deps
       (lookup_scm \<lparr>statusCode = 404, body = Some (JStr ''Not Found'')\<rparr>
          \<lparr>statusCode = 200, body = user_body\<rparr>)
       ''bitbucket.org:batman/{1234}:master'' ''abc123'' ''token''
     = Inl (StatusCode 404 (Some (JStr ''Not Found'')))"
  by (simp add: lookup_eval)

text \<open>
  C8, amended: each of \<^verbatim>\<open>getCommitSha\<close>, \<^verbatim>\<open>getFile\<close> and \<^verbatim>\<open>decorateCommit\<close> fails with the
  one status error, which carries the status code and the body, for every response
  status other than 200: for 404 as for 500, and for the other 2xx codes too. The same
  holds for the author lookup inside \<^verbatim>\<open>decorateCommit\<close>, once the author's name has been
  converted to a string for the URL of that lookup. A response 200 whose body has the
  fields that the lookup reads does not raise: the lookup resolves to the value read.
\<close>

theorem lookups_fail_on_every_status_but_200:
  "(\<forall>response.
      runCommand this (getCommitSha_options scmUri token) = Inr response
    \<and> statusCode response \<noteq> 200
    \<longrightarrow> getCommitSha this scmUri token =
          Inl (StatusCode (statusCode response) (body response)))
 \<and> (\<forall>response.
      runCommand this (getFile_options scmUri path token r) = Inr response
    \<and> statusCode response \<noteq> 200
    \<longrightarrow> getFile this scmUri path token r =
          Inl (StatusCode (statusCode response) (body response)))
 \<and> (\<forall>response.
      runCommand this (decorateCommit_options scmUri sha token) = Inr response
    \<and> statusCode response \<noteq> 200
    \<longrightarrow> decorateCommit d this scmUri sha token =
          Inl (StatusCode (statusCode response) (body response)))
 \<and> (\<forall>response auth user uname options response2.
      runCommand this (decorateCommit_options scmUri sha token) = Inr response
    \<and> statusCode response = 200
    \<and> get_prop (body response) ''author'' = Inr auth
    \<and> get_prop auth ''user'' = Inr user
    \<and> get_prop user ''username'' = Inr uname
    \<and> decorateAuthor_options d uname token = Inr options
    \<and> runCommand this options = Inr response2
    \<and> statusCode response2 \<noteq> 200
    \<longrightarrow> decorateCommit d this scmUri sha token =
          Inl (StatusCode (statusCode response2) (body response2)))
 \<and> (\<forall>response target hash.
      runCommand this (getCommitSha_options scmUri token) = Inr response
    \<and> statusCode response = 200
    \<and> get_prop (body response) ''target'' = Inr target
    \<and> get_prop target ''hash'' = Inr hash
    \<longrightarrow> getCommitSha this scmUri token = Inr hash)
 \<and> (\<forall>response content.
      runCommand this (getFile_options scmUri path token r) = Inr response
    \<and> statusCode response = 200
    \<and> get_prop (body response) ''data'' = Inr content
    \<longrightarrow> getFile this scmUri path token r = Inr content)
 \<and> (\<forall>response auth user uname links html href message result.
      runCommand this (decorateCommit_options scmUri sha token) = Inr response
    \<and> statusCode response = 200
    \<and> get_prop (body response) ''author'' = Inr auth
    \<and> get_prop auth ''user'' = Inr user
    \<and> get_prop user ''username'' = Inr uname
    \<and> decorateAuthor d this uname token = Inr result
    \<and> get_prop (body response) ''links'' = Inr links
    \<and> get_prop links ''html'' = Inr html
    \<and> get_prop html ''href'' = Inr href
    \<and> get_prop (body response) ''message'' = Inr message
    \<longrightarrow> decorateCommit d this scmUri sha token =
          Inr \<lparr>c_url = href, c_message = message, c_author = result\<rparr>)"
  by (simp add: getCommitSha_def getFile_def decorateCommit_def decorateAuthor_def bindE_def)

lemma example_sha_404:
  "runCommand
     (lookup_scm \<lparr>statusCode = 404, body = Some (JStr ''Not Found'')\<rparr>
        \<lparr>statusCode = 200, body = user_body\<rparr>)
     (getCommitSha_options ''bitbucket.org:batman/{1234}:master'' ''token'')
     = Inr \<lparr>statusCode = 404, body = Some (JStr ''Not Found'')\<rparr>
   \<and> statusCode \<lparr>statusCode = 404, body = Some (JStr ''Not Found'')\<rparr> \<noteq> 200"
  by (simp add: lookup_eval)

lemma example_file_201:
  "runCommand
     (lookup_scm \<lparr>statusCode = 201, body = None\<rparr> \<lparr>statusCode = 200, body = user_body\<rparr>)
     (getFile_options ''bitbucket.org:batman/{1234}:master'' ''screwdriver.yaml'' ''token'' None)
     = Inr \<lparr>statusCode = 201, body = None\<rparr>
   \<and> statusCode \<lparr>statusCode = 201, body = None\<rparr> \<noteq> 200"
  by (simp add: lookup_eval)

lemma example_commit_500:
  "runCommand
     (lookup_scm \<lparr>statusCode = 500, body = None\<rparr> \<lparr>statusCode = 200, body = user_body\<rparr>)
     (decorateCommit_options ''bitbucket.org:batman/{1234}:master'' ''abc123'' ''token'')
     = Inr \<lparr>statusCode = 500, body = None\<rparr>
   \<and> statusCode \<lparr>statusCode = 500, body = None\<rparr> \<noteq> 200"
  by (simp add: lookup_eval)

lemma example_author_403:
  "runCommand
     (lookup_scm \<lparr>statusCode = 200, body = commit_body\<rparr> \<lparr>statusCode = 403, body = None\<rparr>)
     (decorateCommit_options ''bitbucket.org:batman/{1234}:master'' ''abc123'' ''token'')
     = Inr \<lparr>statusCode = 200, body = commit_body\<rparr>
   \<and> statusCode \<lparr>statusCode = 200, body = commit_body\<rparr> = 200
   \<and> get_prop (body \<lparr>statusCode = 200, body = commit_body\<rparr>) ''author''
       = Inr (Some (JObj [(''user'', JObj [(''username'', JStr ''robin'')])]))
   \<and> get_prop (Some (JObj [(''user'', JObj [(''username'', JStr ''robin'')])])) ''user''
       = Inr (Some (JObj [(''username'', JStr ''robin'')]))
   \<and> get_prop (Some (JObj [(''username'', JStr ''robin'')])) ''username''
       = Inr (Some (JStr ''robin''))
   \<and> decorateAuthor_options example_deps (Some (JStr ''robin'')) ''token''
       = Inr (get_options ''https://api.bitbucket.org/2.0/users/robin'' ''token'')
   \<and> runCommand
       (lookup_scm \<lparr>statusCode = 200, body = commit_body\<rparr> \<lparr>statusCode = 403, body = None\<rparr>)
       (get_options ''https://api.bitbucket.org/2.0/users/robin'' ''token'')
       = Inr \<lparr>statusCode = 403, body = None\<rparr>
   \<and> statusCode \<lparr>statusCode = 403, body = None\<rparr> \<noteq> 200"
  by (simp add: lookup_eval commit_body_def)

lemma example_sha_200:
  "runCommand
     (lookup_scm \<lparr>statusCode = 200, body = branch_body\<rparr> \<lparr>statusCode = 200, body = user_body\<rparr>)
     (getCommitSha_options ''bitbucket.org:batman/{1234}:master'' ''token'')
     = Inr \<lparr>statusCode = 200, body = branch_body\<rparr>
   \<and> statusCode \<lparr>statusCode = 200, body = branch_body\<rparr> = 200
   \<and> get_prop (body \<lparr>statusCode = 200, body = branch_body\<rparr>) ''target''
       = Inr (Some (JObj [(''hash'', JStr ''abc123'')]))
   \<and> get_prop (Some (JObj [(''hash'', JStr ''abc123'')])) ''hash''
       = Inr (Some (JStr ''abc123''))"
  by (simp add: lookup_eval branch_body_def)

lemma example_file_200:
  "runCommand
     (lookup_scm \<lparr>statusCode = 200, body = Some (JObj [(''data'', JStr ''jobs: {}'')])\<rparr>
        \<lparr>statusCode = 200, body = user_body\<rparr>)
     (getFile_options ''bitbucket.org:batman/{1234}:master'' ''screwdriver.yaml'' ''token'' None)
     = Inr \<lparr>statusCode = 200, body = Some (JObj [(''data'', JStr ''jobs: {}'')])\<rparr>
   \<and> statusCode \<lparr>statusCode = 200, body = Some (JObj [(''data'', JStr ''jobs: {}'')])\<rparr> = 200
   \<and> get_prop (body \<lparr>statusCode = 200, body = Some (JObj [(''data'', JStr ''jobs: {}'')])\<rparr>)
       ''data'' = Inr (Some (JStr ''jobs: {}''))"
  by (simp add: lookup_eval)

lemma example_author_200:
  "decorateAuthor example_deps
     (lookup_scm \<lparr>statusCode = 200, body = commit_body\<rparr> \<lparr>statusCode = 200, body = user_body\<rparr>)
     (Some (JStr ''robin'')) ''token''
   = Inr \<lparr>a_url = Some (JStr ''https://bitbucket.org/robin''),
          a_name = Some (JStr ''Robin''),
          a_username = Some (JStr ''robin''),
          a_avatar = Some (JStr ''https://bitbucket.org/a.png'')\<rparr>"
  by (simp add: lookup_eval user_body_def)

lemma example_commit_200:
  "runCommand
     (lookup_scm \<lparr>statusCode = 200, body = commit_body\<rparr> \<lparr>statusCode = 200, body = user_body\<rparr>)
     (decorateCommit_options ''bitbucket.org:batman/{1234}:master'' ''abc123'' ''token'')
     = Inr \<lparr>statusCode = 200, body = commit_body\<rparr>
   \<and> statusCode \<lparr>statusCode = 200, body = commit_body\<rparr> = 200
   \<and> get_prop (body \<lparr>statusCode = 200, body = commit_body\<rparr>) ''author''
       = Inr (Some (JObj [(''user'', JObj [(''username'', JStr ''robin'')])]))
   \<and> get_prop (Some (JObj [(''user'', JObj [(''username'', JStr ''robin'')])])) ''user''
       = Inr (Some (JObj [(''username'', JStr ''robin'')]))
   \<and> get_prop (Some (JObj [(''username'', JStr ''robin'')])) ''username''
       = Inr (Some (JStr ''robin''))
   \<and> decorateAuthor example_deps
       (lookup_scm \<lparr>statusCode = 200, body = commit_body\<rparr> \<lparr>statusCode = 200, body = user_body\<rparr>)
       (Some (JStr ''robin'')) ''token''
     = Inr \<lparr>a_url = Some (JStr ''https://bitbucket.org/robin''),
            a_name = Some (JStr ''Robin''),
            a_username = Some (JStr ''robin''),
            a_avatar = Some (JStr ''https://bitbucket.org/a.png'')\<rparr>
   \<and> get_prop (body \<lparr>statusCode = 200, body = commit_body\<rparr>) ''links''
       = Inr (Some (JObj [(''html'', JObj [(''href'', JStr ''https://bitbucket.org/c/abc123'')])]))
   \<and> get_prop (Some (JObj [(''html'', JObj [(''href'', JStr ''https://bitbucket.org/c/abc123'')])]))
       ''html'' = Inr (Some (JObj [(''href'', JStr ''https://bitbucket.org/c/abc123'')]))
   \<and> get_prop (Some (JObj [(''href'', JStr ''https://bitbucket.org/c/abc123'')])) ''href''
       = Inr (Some (JStr ''https://bitbucket.org/c/abc123''))
   \<and> get_prop (body \<lparr>statusCode = 200, body = commit_body\<rparr>) ''message''
       = Inr (Some (JStr ''fix the batmobile''))"
  using example_author_200 by (simp add: lookup_eval commit_body_def)

theorem lookups_fail_on_every_status_but_200_witness:
  "getCommitSha
     (lookup_scm \<lparr>statusCode = 404, body = Some (JStr ''Not Found'')\<rparr>
        \<lparr>statusCode = 200, body = user_body\<rparr>)
     ''bitbucket.org:batman/{1234}:master'' ''token''
     = Inl (StatusCode 404 (Some (JStr ''Not Found'')))
   \<and> getFile
       (lookup_scm \<lparr>statusCode = 201, body = None\<rparr> \<lparr>statusCode = 200, body = user_body\<rparr>)
       ''bitbucket.org:batman/{1234}:master'' ''screwdriver.yaml'' ''token'' None
     = Inl (StatusCode 201 None)
   \<and> decorateCommit example_deps
       (lookup_scm \<lparr>statusCode = 500, body = None\<rparr> \<lparr>statusCode = 200, body = user_body\<rparr>)
       ''bitbucket.org:batman/{1234}:master'' ''abc123'' ''token''
     = Inl (StatusCode 500 None)
   \<and> decorateCommit example_deps
       (lookup_scm \<lparr>statusCode = 200, body = commit_body\<rparr> \<lparr>statusCode = 403, body = None\<rparr>)
       ''bitbucket.org:batman/{1234}:master'' ''abc123'' ''token''
     = Inl (StatusCode 403 None)
   \<and> getCommitSha
       (lookup_scm \<lparr>statusCode = 200, body = branch_body\<rparr> \<lparr>statusCode = 200, body = user_body\<rparr>)
       ''bitbucket.org:batman/{1234}:master'' ''token''
     = Inr (Some (JStr ''abc123''))
   \<and> getFile
       (lookup_scm \<lparr>statusCode = 200, body = Some (JObj [(''data'', JStr ''jobs: {}'')])\<rparr>
          \<lparr>statusCode = 200, body = user_body\<rparr>)
       ''bitbucket.org:batman/{1234}:master'' ''screwdriver.yaml'' ''token'' None
     = Inr (Some (JStr ''jobs: {}''))
   \<and> decorateCommit example_deps
       (lookup_scm \<lparr>statusCode = 200, body = commit_body\<rparr> \<lparr>statusCode = 200, body = user_body\<rparr>)
       ''bitbucket.org:batman/{1234}:master'' ''abc123'' ''token''
     = Inr \<lparr>c_url = Some (JStr ''https://bitbucket.org/c/abc123''),
            c_message = Some (JStr ''fix the batmobile''),
            c_author =
              \<lparr>a_url = Some (JStr ''https://bitbucket.org/robin''),
               a_name = Some (JStr ''Robin''),
               a_username = Some (JStr ''robin''),
               a_avatar = Some (JStr ''https://bitbucket.org/a.png'')\<rparr>\<rparr>"
proof -
  note t = lookups_fail_on_every_status_but_200
  note c2 = conjunct2
  have 1: "getCommitSha
     (lookup_scm \<lparr>statusCode = 404, body = Some (JStr ''Not Found'')\<rparr>
        \<lparr>statusCode = 200, body = user_body\<rparr>)
     ''bitbucket.org:batman/{1234}:master'' ''token''
     = Inl (StatusCode 404 (Some (JStr ''Not Found'')))"
    using t [THEN conjunct1, rule_format, OF example_sha_404] by simp
  have 2: "getFile
       (lookup_scm \<lparr>statusCode = 201, body = None\<rparr> \<lparr>statusCode = 200, body = user_body\<rparr>)
       ''bitbucket.org:batman/{1234}:master'' ''screwdriver.yaml'' ''token'' None
     = Inl (StatusCode 201 None)"
    using t [THEN c2, THEN conjunct1, rule_format, OF example_file_201] by simp
  have 3: "decorateCommit example_deps
       (lookup_scm \<lparr>statusCode = 500, body = None\<rparr> \<lparr>statusCode = 200, body = user_body\<rparr>)
       ''bitbucket.org:batman/{1234}:master'' ''abc123'' ''token''
     = Inl (StatusCode 500 None)"
    using t [THEN c2, THEN c2, THEN conjunct1, rule_format, OF example_commit_500] by simp
  have 4: "decorateCommit example_deps
       (lookup_scm \<lparr>statusCode = 200, body = commit_body\<rparr> \<lparr>statusCode = 403, body = None\<rparr>)
       ''bitbucket.org:batman/{1234}:master'' ''abc123'' ''token''
     = Inl (StatusCode 403 None)"
    using t [THEN c2, THEN c2, THEN c2, THEN conjunct1, rule_format, OF example_author_403]
    by simp
  have 5: "getCommitSha
       (lookup_scm \<lparr>statusCode = 200, body = branch_body\<rparr> \<lparr>statusCode = 200, body = user_body\<rparr>)
       ''bitbucket.org:batman/{1234}:master'' ''token''
     = Inr (Some (JStr ''abc123''))"
    using t [THEN c2, THEN c2, THEN c2, THEN c2, THEN conjunct1, rule_format,
        OF example_sha_200]
    by simp
  have 6: "getFile
       (lookup_scm \<lparr>statusCode = 200, body = Some (JObj [(''data'', JStr ''jobs: {}'')])\<rparr>
          \<lparr>statusCode = 200, body = user_body\<rparr>)
       ''bitbucket.org:batman/{1234}:master'' ''screwdriver.yaml'' ''token'' None
     = Inr (Some (JStr ''jobs: {}''))"
    using t [THEN c2, THEN c2, THEN c2, THEN c2, THEN c2, THEN conjunct1, rule_format,
        OF example_file_200]
    by simp
  have 7: "decorateCommit example_deps
       (lookup_scm \<lparr>statusCode = 200, body = commit_body\<rparr> \<lparr>statusCode = 200, body = user_body\<rparr>)
       ''bitbucket.org:batman/{1234}:master'' ''abc123'' ''token''
     = Inr \<lparr>c_url = Some (JStr ''https://bitbucket.org/c/abc123''),
            c_message = Some (JStr ''fix the batmobile''),
            c_author =
              \<lparr>a_url = Some (JStr ''https://bitbucket.org/robin''),
               a_name = Some (JStr ''Robin''),
               a_username = Some (JStr ''robin''),
               a_avatar = Some (JStr ''https://bitbucket.org/a.png'')\<rparr>\<rparr>"
    using t [THEN c2, THEN c2, THEN c2, THEN c2, THEN c2, THEN c2, rule_format,
        OF example_commit_200]
    by simp
  from 1 2 3 4 5 6 7 show ?thesis by (simp only: simp_thms)
qed


end
